theory Spec2Isabelle
  imports Main
begin

section \<open>Data model\<close>

text \<open>
  The server keeps two collections, users and complaints, and answers every request
  with a status code and a JSON body. A collection is the list of its documents in
  insertion order. A string is the list of its UTF-16 code units, each below 256.
\<close>

subsection \<open>JSON values and request bodies\<close>

text \<open>
  A value of a parsed request body. \<open>JNum r\<close> is a number, given by the text \<open>r\<close>
  that JavaScript prints for it (\<open>''0''\<close> for zero). \<open>JObj\<close> is a plain object: one
  that is not an array and has none of the keys that the libraries read from a value,
  which are \<open>_id\<close>, \<open>length\<close>, \<open>toString\<close>, \<open>valueOf\<close> and the query operators
  (the keys that begin with \<open>$\<close>); an object with such a key is not a value of this
  type. A request body is a JSON object, read field by field: \<open>b k\<close> is the value of
  the key \<open>k\<close>, \<open>JUndefined\<close> when the body has no such key.
\<close>

datatype json = JUndefined | JNull | JBool bool | JNum string | JStr string
  | JArr "json list" | JObj

type_synonym jobject = "string \<Rightarrow> json"

definition no_fields :: jobject where
  "no_fields = (\<lambda>k. JUndefined)"

text \<open>JavaScript truthiness, as \<open>!v\<close> tests it.\<close>

fun truthy :: "json \<Rightarrow> bool" where
  "truthy JUndefined = False"
| "truthy JNull = False"
| "truthy (JBool b) = b"
| "truthy (JNum r) = (r \<noteq> ''0'')"
| "truthy (JStr s) = (s \<noteq> [])"
| "truthy (JArr xs) = True"
| "truthy JObj = True"

text \<open>
  \<open>String(v)\<close>, as a template literal and \<open>RegExp.test\<close> convert their argument: an
  array is the texts of its elements joined by commas, the text of \<open>null\<close> and
  \<open>undefined\<close> elements being empty.
\<close>

fun js_String :: "json \<Rightarrow> string" and js_join :: "json list \<Rightarrow> string" where
  "js_String JUndefined = ''undefined''"
| "js_String JNull = ''null''"
| "js_String (JBool b) = (if b then ''true'' else ''false'')"
| "js_String (JNum r) = r"
| "js_String (JStr s) = s"
| "js_String (JArr xs) = js_join xs"
| "js_String JObj = ''[object Object]''"
| "js_join [] = []"
| "js_join (x # xs) =
     (if x = JUndefined \<or> x = JNull then [] else js_String x) @
     (if xs = [] then [] else CHR '','' # js_join xs)"

text \<open>\<open>v.length\<close>: defined for a string and an array.\<close>

fun js_length :: "json \<Rightarrow> nat option" where
  "js_length (JStr s) = Some (length s)"
| "js_length (JArr xs) = Some (length xs)"
| "js_length v = None"

subsection \<open>ObjectIds\<close>

text \<open>
  An ObjectId is twelve bytes, written as 24 hexadecimal digits; the type holds the
  lower-case spelling. A string is cast to an ObjectId when it is 24 hexadecimal
  digits of either case, and to nothing otherwise (older versions of the library also
  take any string of twelve characters).
\<close>

definition is_hex :: "char \<Rightarrow> bool" where
  "is_hex c = (c \<in> set ''0123456789abcdefABCDEF'')"

definition is_lower_hex :: "char \<Rightarrow> bool" where
  "is_lower_hex c = (c \<in> set ''0123456789abcdef'')"

definition lower_hex :: "char \<Rightarrow> char" where
  "lower_hex c =
     (if c = CHR ''A'' then CHR ''a'' else if c = CHR ''B'' then CHR ''b''
      else if c = CHR ''C'' then CHR ''c'' else if c = CHR ''D'' then CHR ''d''
      else if c = CHR ''E'' then CHR ''e'' else if c = CHR ''F'' then CHR ''f'' else c)"

typedef oid = "{s :: string. length s = 24 \<and> list_all is_lower_hex s}"
  by (rule exI [of _ "replicate 24 (CHR ''0'')"]) (simp add: is_lower_hex_def list_all_iff)

definition toHexString :: "oid \<Rightarrow> string" where
  "toHexString i = Rep_oid i"

definition castObjectId :: "string \<Rightarrow> oid option" where
  "castObjectId s =
     (if length s = 24 \<and> list_all is_hex s then Some (Abs_oid (map lower_hex s)) else None)"

subsection \<open>Documents\<close>

text \<open>
  The password field of a user document. bcryptjs is a library outside the repository:
  \<open>Bcrypt salt x\<close> stands for the digest drawn with \<open>salt\<close> from the key material
  \<open>x\<close>, as a free constructor (a digest determines its key material, and nothing else
  produces it).
\<close>

datatype secret = Plain string | Bcrypt nat secret

record user =
  u_id :: oid
  u_name :: string
  u_email :: string
  u_password :: secret
  u_employeeNumber :: string
  u_department :: string
  u_workLocation :: string
  u_role :: string
  u_approvalStatus :: string

text \<open>A field of a complaint that the schema does not require is \<open>None\<close> when it holds \<open>null\<close>.\<close>

record complaint =
  c_id :: oid
  c_employeeId :: oid
  c_employeeName :: string
  c_employeeEmail :: string
  c_employeeNumber :: "string option"
  c_department :: string
  c_category :: string
  c_priority :: "string option"
  c_message :: string
  c_status :: "string option"
  c_adminReply :: "string option"

record store =
  users :: "user list"
  complaints :: "complaint list"

text \<open>The projection \<open>.select('-password')\<close> of a user document.\<close>

record user_view =
  v_id :: oid
  v_name :: string
  v_email :: string
  v_employeeNumber :: string
  v_department :: string
  v_workLocation :: string
  v_role :: string
  v_approvalStatus :: string

definition select_minus_password :: "user \<Rightarrow> user_view" where
  "select_minus_password u =
     \<lparr>v_id = u_id u, v_name = u_name u, v_email = u_email u,
      v_employeeNumber = u_employeeNumber u, v_department = u_department u,
      v_workLocation = u_workLocation u, v_role = u_role u,
      v_approvalStatus = u_approvalStatus u\<rparr>"

subsection \<open>Bearer tokens\<close>

text \<open>
  jsonwebtoken is a library outside the repository. A token is either a string that is
  not a signed token, or \<open>Jwt payload iat exp key\<close>: the payload, the issue and expiry
  instants in seconds, and the secret it was signed with. The subject \<open>_id\<close> of a
  payload is a string: the hexadecimal text of a user's ObjectId, or the string the
  admin login puts there.
\<close>

record claims =
  j_id :: string
  j_email :: string
  j_role :: string

datatype token = Garbage string | Jwt claims nat nat string

datatype span = Days nat | Hours nat

fun span_seconds :: "span \<Rightarrow> nat" where
  "span_seconds (Days n) = n * 24 * 60 * 60"
| "span_seconds (Hours n) = n * 60 * 60"

definition jwt_sign :: "claims \<Rightarrow> string \<Rightarrow> span \<Rightarrow> nat \<Rightarrow> token" where
  "jwt_sign payload secret expiresIn now =
     Jwt payload now (now + span_seconds expiresIn) secret"

text \<open>
  \<open>jwt.verify\<close> throws (here \<open>None\<close>) on a malformed token, on a signature made with
  another secret, and when the clock has reached the expiry instant.
\<close>

fun jwt_verify :: "token \<Rightarrow> string \<Rightarrow> nat \<Rightarrow> claims option" where
  "jwt_verify (Garbage s) secret now = None"
| "jwt_verify (Jwt payload iat exp key) secret now =
     (if key \<noteq> secret then None else if now \<ge> exp then None else Some payload)"

subsection \<open>Responses, environment\<close>

record env =
  env_JWT_SECRET :: "string option"
  env_ADMIN_USERNAME :: string
  env_ADMIN_PASSWORD :: string

text \<open>
  The bodies the routes answer with. The user object of the login response has every
  field of the document but the password, as \<open>user_view\<close> has.
\<close>

datatype body =
    Message bool string
  | Registered string oid string string
  | LoggedIn token user_view
  | AdminLoggedIn token string string
  | ComplaintDoc complaint
  | ComplaintArr "complaint list"
  | ComplaintDocs "complaint list"
  | UserViews "user_view list"
  | UserDoc user

record response =
  r_status :: nat
  r_body :: body

definition reply :: "nat \<Rightarrow> body \<Rightarrow> response" where
  "reply code b = \<lparr>r_status = code, r_body = b\<rparr>"

text \<open>What a library call throws.\<close>

datatype thrown = ValidationError | DuplicateKey | CastError | IllegalArguments

section \<open>The document store (mongoose)\<close>

text \<open>
  The cast of a value to the schema type \<open>String\<close>: \<open>None\<close> for \<open>null\<close> and for a
  missing value; an array or an object is refused.
\<close>

fun cast_String :: "json \<Rightarrow> thrown + string option" where
  "cast_String JUndefined = Inr None"
| "cast_String JNull = Inr None"
| "cast_String (JBool b) = Inr (Some (if b then ''true'' else ''false''))"
| "cast_String (JNum r) = Inr (Some r)"
| "cast_String (JStr s) = Inr (Some s)"
| "cast_String (JArr xs) = Inl CastError"
| "cast_String JObj = Inl CastError"

text \<open>The cast of a value to the schema type \<open>ObjectId\<close>; only a string is taken.\<close>

fun cast_ObjectId :: "json \<Rightarrow> thrown + oid option" where
  "cast_ObjectId JUndefined = Inr None"
| "cast_ObjectId JNull = Inr None"
| "cast_ObjectId (JStr s) = (case castObjectId s of None \<Rightarrow> Inl CastError | Some i \<Rightarrow> Inr (Some i))"
| "cast_ObjectId v = Inl CastError"

fun update_first :: "('a \<Rightarrow> bool) \<Rightarrow> ('a \<Rightarrow> 'a) \<Rightarrow> 'a list \<Rightarrow> 'a list" where
  "update_first p f [] = []"
| "update_first p f (x # xs) = (if p x then f x # xs else x # update_first p f xs)"

fun delete_first :: "('a \<Rightarrow> bool) \<Rightarrow> 'a list \<Rightarrow> 'a list" where
  "delete_first p [] = []"
| "delete_first p (x # xs) = (if p x then xs else x # delete_first p xs)"

text \<open>
  \<open>User.findOne({ employeeNumber: v })\<close>. The filter value is cast to a string; an
  array stands for \<open>$in\<close> of its elements, each cast to a string. A cast that fails
  makes the query throw.
\<close>

definition findOne_employeeNumber :: "user list \<Rightarrow> json \<Rightarrow> thrown + user option" where
  "findOne_employeeNumber us v =
     (case v of
        JArr xs \<Rightarrow>
          (if list_all (\<lambda>x. cast_String x \<noteq> Inl CastError) xs
           then Inr (find (\<lambda>u. Inr (Some (u_employeeNumber u)) \<in> set (map cast_String xs)) us)
           else Inl CastError)
      | _ \<Rightarrow>
          (case cast_String v of
             Inl err \<Rightarrow> Inl err
           | Inr None \<Rightarrow> Inr None
           | Inr (Some n) \<Rightarrow> Inr (find (\<lambda>u. u_employeeNumber u = n) us)))"

text \<open>
  \<open>findById\<close> and its relatives take the id as a string (a route parameter, the
  subject of a token) and cast it to an ObjectId first; a string that does not cast
  makes the query throw.
\<close>

definition User_findById :: "user list \<Rightarrow> string \<Rightarrow> thrown + user option" where
  "User_findById us id' =
     (case castObjectId id' of
        None \<Rightarrow> Inl CastError
      | Some i \<Rightarrow> Inr (find (\<lambda>u. u_id u = i) us))"

definition Complaint_findById :: "complaint list \<Rightarrow> string \<Rightarrow> thrown + complaint option" where
  "Complaint_findById cs id' =
     (case castObjectId id' of
        None \<Rightarrow> Inl CastError
      | Some i \<Rightarrow> Inr (find (\<lambda>c. c_id c = i) cs))"

text \<open>
  \<open>findByIdAndUpdate(id, {approvalStatus}, {new: true})\<close>: the updated document and
  the collection after the update, or \<open>None\<close> and the collection as it was. No save
  hook and no validator runs on this path.
\<close>

definition User_findByIdAndUpdate ::
  "user list \<Rightarrow> string \<Rightarrow> string \<Rightarrow> thrown + (user option \<times> user list)" where
  "User_findByIdAndUpdate us id' st =
     (case castObjectId id' of
        None \<Rightarrow> Inl CastError
      | Some i \<Rightarrow>
          (case find (\<lambda>u. u_id u = i) us of
             None \<Rightarrow> Inr (None, us)
           | Some u \<Rightarrow>
               Inr (Some (u\<lparr>u_approvalStatus := st\<rparr>),
                    update_first (\<lambda>u. u_id u = i) (\<lambda>u. u\<lparr>u_approvalStatus := st\<rparr>) us)))"

definition Complaint_findByIdAndUpdate ::
  "complaint list \<Rightarrow> string \<Rightarrow> string \<Rightarrow> thrown + (complaint option \<times> complaint list)" where
  "Complaint_findByIdAndUpdate cs id' st =
     (case castObjectId id' of
        None \<Rightarrow> Inl CastError
      | Some i \<Rightarrow>
          (case find (\<lambda>c. c_id c = i) cs of
             None \<Rightarrow> Inr (None, cs)
           | Some c \<Rightarrow>
               Inr (Some (c\<lparr>c_status := Some st\<rparr>),
                    update_first (\<lambda>c. c_id c = i) (\<lambda>c. c\<lparr>c_status := Some st\<rparr>) cs)))"

definition User_findByIdAndDelete ::
  "user list \<Rightarrow> string \<Rightarrow> thrown + (user option \<times> user list)" where
  "User_findByIdAndDelete us id' =
     (case castObjectId id' of
        None \<Rightarrow> Inl CastError
      | Some i \<Rightarrow> Inr (find (\<lambda>u. u_id u = i) us, delete_first (\<lambda>u. u_id u = i) us))"

definition Complaint_findByIdAndDelete ::
  "complaint list \<Rightarrow> string \<Rightarrow> thrown + (complaint option \<times> complaint list)" where
  "Complaint_findByIdAndDelete cs id' =
     (case castObjectId id' of
        None \<Rightarrow> Inl CastError
      | Some i \<Rightarrow> Inr (find (\<lambda>c. c_id c = i) cs, delete_first (\<lambda>c. c_id c = i) cs))"

text \<open>\<open>Complaint.deleteMany({ employeeId: userId })\<close>.\<close>

definition Complaint_deleteMany :: "complaint list \<Rightarrow> string \<Rightarrow> thrown + complaint list" where
  "Complaint_deleteMany cs userId =
     (case castObjectId userId of
        None \<Rightarrow> Inl CastError
      | Some i \<Rightarrow> Inr (filter (\<lambda>c. c_employeeId c \<noteq> i) cs))"

text \<open>\<open>.sort({ createdAt: -1 })\<close>: newest first, the insertion order reversed.\<close>

definition sort_newest_first :: "'a list \<Rightarrow> 'a list" where
  "sort_newest_first xs = rev xs"

section \<open>models/User.js\<close>

definition default_secret :: string where
  "default_secret = ''your-secret-key-change-in-production''"

text \<open>\<open>process.env.JWT_SECRET || 'your-secret-key-change-in-production'\<close>.\<close>

definition JWT_SECRET :: "env \<Rightarrow> string" where
  "JWT_SECRET e =
     (case env_JWT_SECRET e of
        None \<Rightarrow> default_secret
      | Some s \<Rightarrow> if s = [] then default_secret else s)"

text \<open>
  bcrypt reads its key from the UTF-8 bytes of the password followed by a zero byte,
  repeated as often as needed, and reads 72 bytes of it: two passwords with the same
  72 bytes have the same digests.
\<close>

definition utf8_unit :: "char \<Rightarrow> string" where
  "utf8_unit c =
     (if (of_char c :: nat) < 128 then [c]
      else [char_of (192 + (of_char c :: nat) div 64), char_of (128 + (of_char c :: nat) mod 64)])"

definition utf8 :: "string \<Rightarrow> string" where
  "utf8 s = concat (map utf8_unit s)"

definition bcrypt_key :: "string \<Rightarrow> string" where
  "bcrypt_key s = take 72 (concat (replicate 72 (utf8 s @ [CHR 0x00])))"

fun bcrypt_hash :: "secret \<Rightarrow> nat \<Rightarrow> secret" where
  "bcrypt_hash (Plain p) salt = Bcrypt salt (Plain (bcrypt_key p))"
| "bcrypt_hash (Bcrypt s x) salt = Bcrypt salt (Bcrypt s x)"

text \<open>
  \<open>bcrypt.compare(candidate, hash)\<close> throws when the candidate is not a string, and is
  false on a stored value that is no digest of a password.
\<close>

fun bcrypt_compare :: "json \<Rightarrow> secret \<Rightarrow> thrown + bool" where
  "bcrypt_compare (JStr candidate) (Bcrypt salt (Plain k)) = Inr (bcrypt_key candidate = k)"
| "bcrypt_compare (JStr candidate) h = Inr False"
| "bcrypt_compare v h = Inl IllegalArguments"

text \<open>
  The \<open>pre('save')\<close> hook: a document whose password was not modified is left as it
  is; otherwise the password field is replaced by its digest.
\<close>

definition pre_save :: "bool \<Rightarrow> nat \<Rightarrow> user \<Rightarrow> user" where
  "pre_save isModified_password salt this =
     (if \<not> isModified_password then this
      else this\<lparr>u_password := bcrypt_hash (u_password this) salt\<rparr>)"

definition comparePassword :: "user \<Rightarrow> json \<Rightarrow> thrown + bool" where
  "comparePassword this candidatePassword = bcrypt_compare candidatePassword (u_password this)"

definition generateAuthToken :: "env \<Rightarrow> user \<Rightarrow> nat \<Rightarrow> token" where
  "generateAuthToken e this now =
     jwt_sign \<lparr>j_id = toHexString (u_id this), j_email = u_email this, j_role = u_role this\<rparr>
       (JWT_SECRET e) (Days 7) now"

text \<open>
  \<open>generateAdminToken(adminUser)\<close> copies \<open>_id\<close> and \<open>email\<close> from its argument and
  writes the role itself; the argument's own role is not read.
\<close>

definition generateAdminToken :: "env \<Rightarrow> claims \<Rightarrow> nat \<Rightarrow> token" where
  "generateAdminToken e adminUser now =
     jwt_sign \<lparr>j_id = j_id adminUser, j_email = j_email adminUser, j_role = ''admin''\<rparr>
       (JWT_SECRET e) (Hours 24) now"

text \<open>
  A required string of a schema: the value casts to a string that is not empty.
  An optional one: the value casts.
\<close>

definition required_String :: "json \<Rightarrow> bool" where
  "required_String v = (case cast_String v of Inr (Some s) \<Rightarrow> s \<noteq> [] | _ \<Rightarrow> False)"

definition the_String :: "json \<Rightarrow> string" where
  "the_String v = (case cast_String v of Inr (Some s) \<Rightarrow> s | _ \<Rightarrow> [])"

text \<open>
  \<open>User.create\<close> on the object the register handler builds: the schema's casts and
  validators, then the save hook on the new document, then the insert, which the
  unique indexes on \<open>_id\<close>, \<open>email\<close> and \<open>employeeNumber\<close> refuse with a duplicate key
  error. The \<open>_id\<close> is the ObjectId the driver draws for the new document; the role
  takes the schema's default.
\<close>

definition User_create ::
  "user list \<Rightarrow> jobject \<Rightarrow> nat \<Rightarrow> oid \<Rightarrow> thrown + (user \<times> user list)" where
  "User_create us doc salt fresh =
     (if \<not> (required_String (doc ''name'') \<and> required_String (doc ''email'') \<and>
             required_String (doc ''password'') \<and> required_String (doc ''employeeNumber'') \<and>
             required_String (doc ''department'') \<and> required_String (doc ''workLocation'') \<and>
             doc ''approvalStatus'' \<in> set (map JStr [''pending'', ''approved'', ''rejected'']))
      then Inl ValidationError
      else
        let saved = pre_save True salt
              \<lparr>u_id = fresh, u_name = the_String (doc ''name''),
               u_email = the_String (doc ''email''),
               u_password = Plain (the_String (doc ''password'')),
               u_employeeNumber = the_String (doc ''employeeNumber''),
               u_department = the_String (doc ''department''),
               u_workLocation = the_String (doc ''workLocation''),
               u_role = ''employee'', u_approvalStatus = the_String (doc ''approvalStatus'')\<rparr>
        in if \<exists>u \<in> set us. u_id u = u_id saved \<or> u_email u = u_email saved \<or>
                u_employeeNumber u = u_employeeNumber saved
           then Inl DuplicateKey
           else Inr (saved, us @ [saved]))"

section \<open>models/Complaint.js\<close>

text \<open>
  \<open>Complaint.create(req.body)\<close>: the body's own \<open>_id\<close> if it gives one (else the
  ObjectId the driver draws), the schema's casts, defaults (for a missing \<open>priority\<close>,
  \<open>status\<close>, \<open>adminReply\<close>) and validators (required fields, the enumerated values of
  \<open>priority\<close> and \<open>status\<close>, which \<open>null\<close> passes), then the insert, which the index on
  \<open>_id\<close> refuses for an \<open>_id\<close> the collection has. Keys that the schema does not have
  are dropped.
\<close>

definition with_default :: "json \<Rightarrow> string \<Rightarrow> json" where
  "with_default v d = (if v = JUndefined then JStr d else v)"

definition optional_String :: "json \<Rightarrow> bool" where
  "optional_String v = (cast_String v \<noteq> Inl CastError)"

definition opt_String :: "json \<Rightarrow> string option" where
  "opt_String v = (case cast_String v of Inr x \<Rightarrow> x | Inl err \<Rightarrow> None)"

definition enum_String :: "string list \<Rightarrow> json \<Rightarrow> bool" where
  "enum_String values v =
     (case cast_String v of
        Inl err \<Rightarrow> False
      | Inr None \<Rightarrow> True
      | Inr (Some s) \<Rightarrow> s \<in> set values)"

definition new_id :: "json \<Rightarrow> oid \<Rightarrow> oid option" where
  "new_id v fresh =
     (if v = JUndefined then Some fresh
      else case cast_ObjectId v of Inr (Some i) \<Rightarrow> Some i | _ \<Rightarrow> None)"

definition required_ObjectId :: "json \<Rightarrow> oid option" where
  "required_ObjectId v = (case cast_ObjectId v of Inr (Some i) \<Rightarrow> Some i | _ \<Rightarrow> None)"

definition Complaint_create ::
  "complaint list \<Rightarrow> jobject \<Rightarrow> oid \<Rightarrow> thrown + (complaint \<times> complaint list)" where
  "Complaint_create cs b fresh =
     (if \<not> (new_id (b ''_id'') fresh \<noteq> None \<and>
             required_ObjectId (b ''employeeId'') \<noteq> None \<and>
             required_String (b ''employeeName'') \<and> required_String (b ''employeeEmail'') \<and>
             optional_String (b ''employeeNumber'') \<and>
             required_String (b ''department'') \<and> required_String (b ''category'') \<and>
             enum_String [''low'', ''medium'', ''high''] (with_default (b ''priority'') ''medium'') \<and>
             required_String (b ''message'') \<and>
             enum_String [''pending'', ''received'', ''resolved'']
               (with_default (b ''status'') ''pending'') \<and>
             optional_String (with_default (b ''adminReply'') []))
      then Inl ValidationError
      else
        let doc =
              \<lparr>c_id = the (new_id (b ''_id'') fresh),
               c_employeeId = the (required_ObjectId (b ''employeeId'')),
               c_employeeName = the_String (b ''employeeName''),
               c_employeeEmail = the_String (b ''employeeEmail''),
               c_employeeNumber = opt_String (b ''employeeNumber''),
               c_department = the_String (b ''department''),
               c_category = the_String (b ''category''),
               c_priority = opt_String (with_default (b ''priority'') ''medium''),
               c_message = the_String (b ''message''),
               c_status = opt_String (with_default (b ''status'') ''pending''),
               c_adminReply = opt_String (with_default (b ''adminReply'') [])\<rparr>
        in if \<exists>c \<in> set cs. c_id c = c_id doc
           then Inl DuplicateKey
           else Inr (doc, cs @ [doc]))"

section \<open>middleware/auth.js\<close>

text \<open>
  The \<open>Authorization\<close> header after \<open>replace('Bearer ', '')\<close>: \<open>None\<close> when the header
  is absent or nothing is left of it. What a gate lets through carries \<open>req.user\<close> and
  \<open>req.token\<close>. Every throw inside a gate is answered by its catch block.
\<close>

record employee_ctx =
  req_user :: user_view
  req_token :: token

record admin_ctx =
  req_admin :: claims
  req_admin_token :: token

definition authMiddleware ::
  "env \<Rightarrow> store \<Rightarrow> token option \<Rightarrow> nat \<Rightarrow> response + employee_ctx" where
  "authMiddleware e s header now =
     (case header of
        None \<Rightarrow> Inl (reply 401 (Message False ''Authentication required''))
      | Some tok \<Rightarrow>
          (case jwt_verify tok (JWT_SECRET e) now of
             None \<Rightarrow> Inl (reply 401 (Message False ''Invalid or expired token''))
           | Some decoded \<Rightarrow>
               (case User_findById (users s) (j_id decoded) of
                  Inl err \<Rightarrow> Inl (reply 401 (Message False ''Invalid or expired token''))
                | Inr None \<Rightarrow> Inl (reply 401 (Message False ''User not found''))
                | Inr (Some u) \<Rightarrow>
                    if u_approvalStatus u \<noteq> ''approved''
                    then Inl (reply 403 (Message False ''Account not approved''))
                    else Inr \<lparr>req_user = select_minus_password u, req_token = tok\<rparr>)))"

definition adminMiddleware :: "env \<Rightarrow> token option \<Rightarrow> nat \<Rightarrow> response + admin_ctx" where
  "adminMiddleware e header now =
     (case header of
        None \<Rightarrow> Inl (reply 401 (Message False ''Authentication required''))
      | Some tok \<Rightarrow>
          (case jwt_verify tok (JWT_SECRET e) now of
             None \<Rightarrow> Inl (reply 401 (Message False ''Invalid or expired token''))
           | Some decoded \<Rightarrow>
               if j_role decoded \<noteq> ''admin''
               then Inl (reply 403 (Message False ''Admin access required''))
               else Inr \<lparr>req_admin = decoded, req_admin_token = tok\<rparr>))"

section \<open>server.js: the routes\<close>

text \<open>
  A handler takes the store and the request and returns the response and the store it
  leaves. A throw inside a handler's \<open>try\<close> block is answered by its catch block with
  500 and the message below.
\<close>

definition server_error :: response where
  "server_error = reply 500 (Message False ''Server error occurred'')"

subsection \<open>Auth routes\<close>

text \<open>The test of \<open>/^[0-9]{10}$/\<close> on the text of a value.\<close>

definition phoneRegex_test :: "json \<Rightarrow> bool" where
  "phoneRegex_test v =
     (length (js_String v) = 10 \<and> list_all (\<lambda>c. c \<in> set ''0123456789'') (js_String v))"

text \<open>\<open>password.length < 6\<close>: false when the value has no length.\<close>

definition length_less :: "json \<Rightarrow> nat \<Rightarrow> bool" where
  "length_less v n = (case js_length v of None \<Rightarrow> False | Some l \<Rightarrow> l < n)"

definition register :: "store \<Rightarrow> jobject \<Rightarrow> nat \<Rightarrow> oid \<Rightarrow> response \<times> store" where
  "register s b salt fresh =
     (let name = b ''name''; email = b ''email''; password = b ''password'';
          employeeNumber = b ''employeeNumber''; department = b ''department'';
          workLocation = b ''workLocation''
      in
      if \<not> truthy name \<or> \<not> truthy password \<or> \<not> truthy employeeNumber \<or>
         \<not> truthy department \<or> \<not> truthy workLocation
      then (reply 400 (Message False ''All fields are required''), s)
      else if \<not> phoneRegex_test employeeNumber
      then (reply 400 (Message False ''Phone number must be exactly 10 digits''), s)
      else if length_less password 6
      then (reply 400 (Message False ''Password must be at least 6 characters''), s)
      else
        case findOne_employeeNumber (users s) employeeNumber of
          Inl err \<Rightarrow> (server_error, s)
        | Inr (Some existingUser) \<Rightarrow>
            (reply 400 (Message False ''Phone number already registered''), s)
        | Inr None \<Rightarrow>
            let generatedEmail =
                  (if truthy email then email
                   else JStr (js_String employeeNumber @ ''@complaintbox.local''))
            in case User_create (users s)
                      (no_fields(''name'' := name, ''email'' := generatedEmail,
                         ''password'' := password, ''employeeNumber'' := employeeNumber,
                         ''department'' := department, ''workLocation'' := workLocation,
                         ''approvalStatus'' := JStr ''pending''))
                      salt fresh of
                 Inl err \<Rightarrow> (server_error, s)
               | Inr (u, us) \<Rightarrow>
                   (reply 201
                      (Registered ''Registration successful! Wait for admin approval.''
                         (u_id u) (u_name u) (u_employeeNumber u)),
                    s\<lparr>users := us\<rparr>))"

definition login :: "env \<Rightarrow> store \<Rightarrow> jobject \<Rightarrow> nat \<Rightarrow> response" where
  "login e s b now =
     (let email = b ''email''; password = b ''password''; phoneNumber = email in
      if \<not> truthy phoneNumber \<or> \<not> truthy password
      then reply 400 (Message False ''Phone number and password required'')
      else
        case findOne_employeeNumber (users s) phoneNumber of
          Inl err \<Rightarrow> server_error
        | Inr None \<Rightarrow> reply 401 (Message False ''Invalid credentials'')
        | Inr (Some u) \<Rightarrow>
            (case comparePassword u password of
               Inl err \<Rightarrow> server_error
             | Inr matches \<Rightarrow>
                 if \<not> matches
                 then reply 401 (Message False ''Invalid credentials'')
                 else if u_approvalStatus u = ''pending''
                 then reply 403 (Message False ''Account pending approval'')
                 else if u_approvalStatus u = ''rejected''
                 then reply 403 (Message False ''Account rejected. Contact HR.'')
                 else reply 200 (LoggedIn (generateAuthToken e u now) (select_minus_password u))))"

definition adminUser :: claims where
  "adminUser = \<lparr>j_id = ''admin'', j_email = ''admin@system.com'', j_role = ''admin''\<rparr>"

definition admin_login :: "env \<Rightarrow> jobject \<Rightarrow> nat \<Rightarrow> response" where
  "admin_login e b now =
     (let username = b ''username''; password = b ''password'' in
      if \<not> truthy username \<or> \<not> truthy password
      then reply 400 (Message False ''Username and password required'')
      else if username \<noteq> JStr (env_ADMIN_USERNAME e) \<or> password \<noteq> JStr (env_ADMIN_PASSWORD e)
      then reply 401 (Message False ''Invalid admin credentials'')
      else reply 200 (AdminLoggedIn (generateAdminToken e adminUser now) ''admin'' (env_ADMIN_USERNAME e)))"

subsection \<open>Complaint routes behind the employee gate\<close>

definition get_complaints :: "env \<Rightarrow> store \<Rightarrow> token option \<Rightarrow> nat \<Rightarrow> response" where
  "get_complaints e s header now =
     (case authMiddleware e s header now of
        Inl r \<Rightarrow> r
      | Inr ctx \<Rightarrow> reply 200 (ComplaintArr (sort_newest_first (complaints s))))"

text \<open>
  \<open>POST /api/complaints\<close> hands the request body to \<open>Complaint.create\<close>;
  \<open>req.user\<close> is not read.
\<close>

definition post_complaints ::
  "env \<Rightarrow> store \<Rightarrow> token option \<Rightarrow> nat \<Rightarrow> jobject \<Rightarrow> oid \<Rightarrow> response \<times> store" where
  "post_complaints e s header now b fresh =
     (case authMiddleware e s header now of
        Inl r \<Rightarrow> (r, s)
      | Inr ctx \<Rightarrow>
          (case Complaint_create (complaints s) b fresh of
             Inl err \<Rightarrow> (server_error, s)
           | Inr (c, cs) \<Rightarrow> (reply 201 (ComplaintDoc c), s\<lparr>complaints := cs\<rparr>)))"

definition get_complaint :: "env \<Rightarrow> store \<Rightarrow> token option \<Rightarrow> nat \<Rightarrow> string \<Rightarrow> response" where
  "get_complaint e s header now id' =
     (case authMiddleware e s header now of
        Inl r \<Rightarrow> r
      | Inr ctx \<Rightarrow>
          (case Complaint_findById (complaints s) id' of
             Inl err \<Rightarrow> server_error
           | Inr None \<Rightarrow> reply 404 (Message False ''Not found'')
           | Inr (Some c) \<Rightarrow> reply 200 (ComplaintDoc c)))"

subsection \<open>Admin routes behind the admin gate\<close>

definition get_users :: "env \<Rightarrow> store \<Rightarrow> token option \<Rightarrow> nat \<Rightarrow> response" where
  "get_users e s header now =
     (case adminMiddleware e header now of
        Inl r \<Rightarrow> r
      | Inr ctx \<Rightarrow>
          reply 200 (UserViews (sort_newest_first (map select_minus_password (users s)))))"

definition get_pending_users :: "env \<Rightarrow> store \<Rightarrow> token option \<Rightarrow> nat \<Rightarrow> response" where
  "get_pending_users e s header now =
     (case adminMiddleware e header now of
        Inl r \<Rightarrow> r
      | Inr ctx \<Rightarrow>
          reply 200 (UserViews (sort_newest_first (map select_minus_password
            (filter (\<lambda>u. u_approvalStatus u = ''pending'') (users s))))))"

text \<open>
  \<open>PATCH /api/admin/users/:id/approval\<close>, with the route parameter and the
  \<open>approvalStatus\<close> of the body. The document \<open>findByIdAndUpdate\<close> returns goes into
  the response as it is.
\<close>

definition update_approval :: "store \<Rightarrow> string \<Rightarrow> json \<Rightarrow> response \<times> store" where
  "update_approval s id' approvalStatus =
     (if approvalStatus \<notin> set (map JStr [''approved'', ''rejected'', ''pending''])
      then (reply 400 (Message False ''Invalid approval status''), s)
      else
        case User_findByIdAndUpdate (users s) id' (the_String approvalStatus) of
          Inl err \<Rightarrow> (server_error, s)
        | Inr (None, us) \<Rightarrow> (reply 404 (Message False ''User not found''), s\<lparr>users := us\<rparr>)
        | Inr (Some u, us) \<Rightarrow> (reply 200 (UserDoc u), s\<lparr>users := us\<rparr>))"

definition patch_approval ::
  "env \<Rightarrow> store \<Rightarrow> token option \<Rightarrow> nat \<Rightarrow> string \<Rightarrow> json \<Rightarrow> response \<times> store" where
  "patch_approval e s header now id' approvalStatus =
     (case adminMiddleware e header now of
        Inl r \<Rightarrow> (r, s)
      | Inr ctx \<Rightarrow> update_approval s id' approvalStatus)"

text \<open>
  \<open>DELETE /api/admin/users/:id\<close>: the account first, then every complaint whose
  \<open>employeeId\<close> is the route parameter.
\<close>

definition delete_user_handler :: "store \<Rightarrow> string \<Rightarrow> response \<times> store" where
  "delete_user_handler s userId =
     (case User_findByIdAndDelete (users s) userId of
        Inl err \<Rightarrow> (server_error, s)
      | Inr (None, us) \<Rightarrow> (reply 404 (Message False ''User not found''), s\<lparr>users := us\<rparr>)
      | Inr (Some deletedUser, us) \<Rightarrow>
          (case Complaint_deleteMany (complaints s) userId of
             Inl err \<Rightarrow> (server_error, s\<lparr>users := us\<rparr>)
           | Inr cs \<Rightarrow>
               (reply 200 (Message True ''User and associated complaints deleted successfully''),
                s\<lparr>users := us, complaints := cs\<rparr>)))"

definition delete_user ::
  "env \<Rightarrow> store \<Rightarrow> token option \<Rightarrow> nat \<Rightarrow> string \<Rightarrow> response \<times> store" where
  "delete_user e s header now userId =
     (case adminMiddleware e header now of
        Inl r \<Rightarrow> (r, s)
      | Inr ctx \<Rightarrow> delete_user_handler s userId)"

definition get_admin_complaints :: "env \<Rightarrow> store \<Rightarrow> token option \<Rightarrow> nat \<Rightarrow> response" where
  "get_admin_complaints e s header now =
     (case adminMiddleware e header now of
        Inl r \<Rightarrow> r
      | Inr ctx \<Rightarrow> reply 200 (ComplaintDocs (sort_newest_first (complaints s))))"

text \<open>
  \<open>PATCH /api/admin/complaints/:id/status\<close>, with the route parameter and the
  \<open>status\<close> of the body.
\<close>

definition update_status :: "store \<Rightarrow> string \<Rightarrow> json \<Rightarrow> response \<times> store" where
  "update_status s id' status =
     (if status \<notin> set (map JStr [''pending'', ''received'', ''resolved''])
      then (reply 400 (Message False ''Invalid status''), s)
      else
        case Complaint_findByIdAndUpdate (complaints s) id' (the_String status) of
          Inl err \<Rightarrow> (server_error, s)
        | Inr (None, cs) \<Rightarrow>
            (reply 404 (Message False ''Complaint not found''), s\<lparr>complaints := cs\<rparr>)
        | Inr (Some c, cs) \<Rightarrow> (reply 200 (ComplaintDoc c), s\<lparr>complaints := cs\<rparr>))"

definition patch_status ::
  "env \<Rightarrow> store \<Rightarrow> token option \<Rightarrow> nat \<Rightarrow> string \<Rightarrow> json \<Rightarrow> response \<times> store" where
  "patch_status e s header now id' status =
     (case adminMiddleware e header now of
        Inl r \<Rightarrow> (r, s)
      | Inr ctx \<Rightarrow> update_status s id' status)"

definition delete_complaint_handler :: "store \<Rightarrow> string \<Rightarrow> response \<times> store" where
  "delete_complaint_handler s id' =
     (case Complaint_findByIdAndDelete (complaints s) id' of
        Inl err \<Rightarrow> (server_error, s)
      | Inr (None, cs) \<Rightarrow>
          (reply 404 (Message False ''Complaint not found''), s\<lparr>complaints := cs\<rparr>)
      | Inr (Some deletedComplaint, cs) \<Rightarrow>
          (reply 200 (Message True ''Complaint deleted successfully''), s\<lparr>complaints := cs\<rparr>))"

definition delete_complaint ::
  "env \<Rightarrow> store \<Rightarrow> token option \<Rightarrow> nat \<Rightarrow> string \<Rightarrow> response \<times> store" where
  "delete_complaint e s header now id' =
     (case adminMiddleware e header now of
        Inl r \<Rightarrow> (r, s)
      | Inr ctx \<Rightarrow> delete_complaint_handler s id')"

section \<open>What the properties speak of\<close>

text \<open>The token a response hands out, if any.\<close>

definition issued_token :: "response \<Rightarrow> token option" where
  "issued_token r =
     (case r_body r of
        LoggedIn tok v \<Rightarrow> Some tok
      | AdminLoggedIn tok role name \<Rightarrow> Some tok
      | _ \<Rightarrow> None)"

text \<open>The store's guarantee that an \<open>_id\<close> names one document of its collection.\<close>

definition wf_store :: "store \<Rightarrow> bool" where
  "wf_store s = (distinct (map u_id (users s)) \<and> distinct (map c_id (complaints s)))"

text \<open>
  The stored password: a password field that holds a digest, a store all of whose
  accounts do, and the password fields a response body carries (only a whole user
  document has one; the projection \<open>user_view\<close> has none).
\<close>

fun is_digest :: "secret \<Rightarrow> bool" where
  "is_digest (Bcrypt salt x) = True"
| "is_digest (Plain p) = False"

definition secrets_hashed :: "store \<Rightarrow> bool" where
  "secrets_hashed s = list_all (\<lambda>u. is_digest (u_password u)) (users s)"

definition body_secrets :: "body \<Rightarrow> secret list" where
  "body_secrets b = (case b of UserDoc u \<Rightarrow> [u_password u] | _ \<Rightarrow> [])"

section \<open>A running example\<close>

text \<open>
  One process environment, one approved account (Alice), one pending account (Bob), and
  a complaint of each; the theorems below are instantiated on them.
\<close>

definition ex_id1 :: oid where
  "ex_id1 = Abs_oid ''000000000000000000000001''"

definition ex_id2 :: oid where
  "ex_id2 = Abs_oid ''000000000000000000000002''"

definition ex_id3 :: oid where
  "ex_id3 = Abs_oid ''000000000000000000000003''"

definition ex_env :: env where
  "ex_env = \<lparr>env_JWT_SECRET = Some ''0123456789abcdef0123456789abcdef'',
             env_ADMIN_USERNAME = ''root'', env_ADMIN_PASSWORD = ''hunter22''\<rparr>"

definition ex_alice :: user where
  "ex_alice = \<lparr>u_id = ex_id1, u_name = ''Alice'', u_email = ''9876543210@complaintbox.local'',
     u_password = Bcrypt 7 (Plain (bcrypt_key ''secret1'')), u_employeeNumber = ''9876543210'',
     u_department = ''HR'', u_workLocation = ''Kochi'', u_role = ''employee'',
     u_approvalStatus = ''approved''\<rparr>"

definition ex_bob :: user where
  "ex_bob = \<lparr>u_id = ex_id2, u_name = ''Bob'', u_email = ''bob@example.org'',
     u_password = Bcrypt 9 (Plain (bcrypt_key ''hunter2!'')), u_employeeNumber = ''9123456780'',
     u_department = ''IT'', u_workLocation = ''Pune'', u_role = ''employee'',
     u_approvalStatus = ''pending''\<rparr>"

definition ex_complaint :: "oid \<Rightarrow> oid \<Rightarrow> string \<Rightarrow> complaint" where
  "ex_complaint i owner st =
     \<lparr>c_id = i, c_employeeId = owner, c_employeeName = ''N'', c_employeeEmail = ''E'',
      c_employeeNumber = None, c_department = ''D'', c_category = ''PF'',
      c_priority = Some ''high'', c_message = ''late'', c_status = Some st,
      c_adminReply = Some []\<rparr>"

definition ex_store :: store where
  "ex_store = \<lparr>users = [ex_alice, ex_bob],
               complaints = [ex_complaint ex_id1 ex_id1 ''pending'',
                             ex_complaint ex_id2 ex_id2 ''resolved'']\<rparr>"

definition ex_login :: jobject where
  "ex_login = no_fields(''email'' := JStr ''9876543210'', ''password'' := JStr ''secret1'')"

definition ex_admin_login :: jobject where
  "ex_admin_login = no_fields(''username'' := JStr ''root'', ''password'' := JStr ''hunter22'')"

definition ex_token :: token where
  "ex_token = generateAuthToken ex_env ex_alice 1000"

definition ex_admin_token :: token where
  "ex_admin_token = generateAdminToken ex_env adminUser 1000"

definition ex_rejected_store :: store where
  "ex_rejected_store = ex_store\<lparr>users := [ex_alice\<lparr>u_approvalStatus := ''rejected''\<rparr>, ex_bob]\<rparr>"

text \<open>The definitions a concrete request is evaluated with.\<close>



text \<open>
  Two registrations: Dave's, with the number 9000000002 and an \<open>email\<close> field that is the
  address generated for the number 9000000001, and then Carol's, with the number
  9000000001 and no \<open>email\<close> field, as the repository's client sends it.
\<close>

definition ex_id4 :: oid where
  "ex_id4 = Abs_oid ''000000000000000000000004''"

definition ex_dave_body :: jobject where
  "ex_dave_body =
     no_fields(''name'' := JStr ''Dave'', ''email'' := JStr ''9000000001@complaintbox.local'',
       ''password'' := JStr ''secret4'', ''employeeNumber'' := JStr ''9000000002'',
       ''department'' := JStr ''Ops'', ''workLocation'' := JStr ''Kochi'')"

definition ex_dave :: user where
  "ex_dave = \<lparr>u_id = ex_id3, u_name = ''Dave'', u_email = ''9000000001@complaintbox.local'',
     u_password = Bcrypt 4 (Plain (bcrypt_key ''secret4'')), u_employeeNumber = ''9000000002'',
     u_department = ''Ops'', u_workLocation = ''Kochi'', u_role = ''employee'',
     u_approvalStatus = ''pending''\<rparr>"

definition ex_carol_body :: jobject where
  "ex_carol_body =
     no_fields(''name'' := JStr ''Carol'', ''password'' := JStr ''secret3'',
       ''employeeNumber'' := JStr ''9000000001'', ''department'' := JStr ''Ops'',
       ''workLocation'' := JStr ''Kochi'')"

named_theorems eval_defs

declare
  ex_env_def [eval_defs] ex_alice_def [eval_defs] ex_bob_def [eval_defs]
  ex_complaint_def [eval_defs] ex_store_def [eval_defs] ex_login_def [eval_defs]
  ex_admin_login_def [eval_defs] ex_token_def [eval_defs] ex_admin_token_def [eval_defs]
  ex_rejected_store_def [eval_defs] no_fields_def [eval_defs]
  adminUser_def [eval_defs] reply_def [eval_defs] server_error_def [eval_defs]
  JWT_SECRET_def [eval_defs] generateAuthToken_def [eval_defs]
  generateAdminToken_def [eval_defs] jwt_sign_def [eval_defs]
  comparePassword_def [eval_defs] select_minus_password_def [eval_defs]
  findOne_employeeNumber_def [eval_defs] User_findById_def [eval_defs]
  Complaint_findById_def [eval_defs] User_findByIdAndUpdate_def [eval_defs]
  Complaint_findByIdAndUpdate_def [eval_defs] User_findByIdAndDelete_def [eval_defs]
  Complaint_findByIdAndDelete_def [eval_defs] Complaint_deleteMany_def [eval_defs]
  authMiddleware_def [eval_defs] adminMiddleware_def [eval_defs]
  login_def [eval_defs] admin_login_def [eval_defs]
  update_approval_def [eval_defs] patch_approval_def [eval_defs]
  update_status_def [eval_defs] patch_status_def [eval_defs]
  delete_user_handler_def [eval_defs] delete_user_def [eval_defs]
  post_complaints_def [eval_defs] Complaint_create_def [eval_defs]
  required_String_def [eval_defs] the_String_def [eval_defs] optional_String_def [eval_defs]
  opt_String_def [eval_defs] enum_String_def [eval_defs] with_default_def [eval_defs]
  new_id_def [eval_defs] required_ObjectId_def [eval_defs]
  register_def [eval_defs] User_create_def [eval_defs] pre_save_def [eval_defs]
  phoneRegex_test_def [eval_defs] length_less_def [eval_defs] Let_def [eval_defs]

section \<open>Facts about ObjectIds and the store operations\<close>

lemma lower_hex_id: "is_lower_hex c \<Longrightarrow> lower_hex c = c"
  by (auto simp: is_lower_hex_def lower_hex_def)

lemma is_lower_hex_is_hex: "is_lower_hex c \<Longrightarrow> is_hex c"
  by (auto simp: is_lower_hex_def is_hex_def)

text \<open>The text of an ObjectId casts back to it.\<close>

lemma castObjectId_toHexString: "castObjectId (toHexString i) = Some i"
proof -
  have carrier: "length (Rep_oid i) = 24 \<and> list_all is_lower_hex (Rep_oid i)"
    using Rep_oid [of i] by simp
  then have hex: "list_all is_hex (Rep_oid i)"
    by (auto simp: list_all_iff is_lower_hex_is_hex)
  from carrier have "map lower_hex (Rep_oid i) = Rep_oid i"
    by (intro map_idI) (auto simp: list_all_iff lower_hex_id)
  with carrier hex show ?thesis
    by (simp add: castObjectId_def toHexString_def Rep_oid_inverse)
qed

lemma ex_id_text:
  "toHexString ex_id1 = ''000000000000000000000001''"
  "toHexString ex_id2 = ''000000000000000000000002''"
  "toHexString ex_id3 = ''000000000000000000000003''"
  by (simp_all add: toHexString_def ex_id1_def ex_id2_def ex_id3_def Abs_oid_inverse
      is_lower_hex_def)

lemma ex_id_cast:
  "castObjectId ''000000000000000000000001'' = Some ex_id1"
  "castObjectId ''000000000000000000000002'' = Some ex_id2"
  "castObjectId ''000000000000000000000003'' = Some ex_id3"
  "castObjectId ''abc'' = None"
  using castObjectId_toHexString [of ex_id1] castObjectId_toHexString [of ex_id2]
    castObjectId_toHexString [of ex_id3]
  by (simp_all add: ex_id_text) (simp add: castObjectId_def)

lemma ex_id_distinct:
  "ex_id1 \<noteq> ex_id2" "ex_id2 \<noteq> ex_id1" "ex_id1 \<noteq> ex_id3" "ex_id3 \<noteq> ex_id1"
  "ex_id2 \<noteq> ex_id3" "ex_id3 \<noteq> ex_id2"
  using ex_id_text by (auto dest: arg_cong [of _ _ toHexString])

lemma find_SomeD: "find p xs = Some x \<Longrightarrow> x \<in> set xs \<and> p x"
  by (induction xs) (auto split: if_splits)

lemma find_update_first:
  assumes "find p xs = Some x" and "\<And>y. p (f y) = p y"
  shows "find p (update_first p f xs) = Some (f x)"
  using assms by (induction xs) (auto split: if_splits)

lemma find_None_update_first: "find p xs = None \<Longrightarrow> update_first p f xs = xs"
  by (induction xs) (auto split: if_splits)

lemma find_None_delete_first: "find p xs = None \<Longrightarrow> delete_first p xs = xs"
  by (induction xs) (auto split: if_splits)

lemma delete_first_distinct:
  assumes "distinct (map k xs)"
  shows "delete_first (\<lambda>x. k x = i) xs = filter (\<lambda>x. k x \<noteq> i) xs"
  using assms
proof (induction xs)
  case Nil
  show ?case by simp
next
  case (Cons x xs)
  show ?case
  proof (cases "k x = i")
    case True
    from Cons.prems have "k x \<notin> k ` set xs" by simp
    with True have "\<forall>y \<in> set xs. k y \<noteq> i" by blast
    then have "filter (\<lambda>x. k x \<noteq> i) xs = xs" by (simp add: filter_id_conv)
    with True show ?thesis by simp
  next
    case False
    with Cons show ?thesis by simp
  qed
qed

lemma jwt_verify_own_token:
  "jwt_verify (jwt_sign payload secret sp t0) secret now =
     (if now < t0 + span_seconds sp then Some payload else None)"
  by (simp add: jwt_sign_def)

text \<open>The key of a password starts with the password's first byte.\<close>

lemma bcrypt_key_hd: "hd (bcrypt_key s) = hd (utf8 s @ [CHR 0x00])"
proof -
  have "replicate 72 (utf8 s @ [CHR 0x00]) =
      (utf8 s @ [CHR 0x00]) # replicate 71 (utf8 s @ [CHR 0x00])"
    by (simp add: numeral_eq_Suc)
  then show ?thesis
    by (cases "utf8 s") (simp_all add: bcrypt_key_def numeral_eq_Suc)
qed

section \<open>Token validity\<close>

text \<open>
  Claim C8. A token of \<open>generateAuthToken\<close> expires exactly 7 days (604800 seconds)
  after it is issued, and every token the login route hands out is one of these; the
  token of \<open>generateAdminToken\<close> on the admin login's \<open>adminUser\<close> expires exactly 24
  hours after it is issued, carries the subject \<open>'admin'\<close> and the role \<open>'admin'\<close>, and
  is the only token the admin login hands out. Under the process's secret either token
  verifies at every instant before its expiry and at none from the expiry on, and no
  token at all verifies at or after the expiry it embeds.
\<close>

theorem C8_token_validity_windows:
  "generateAuthToken e u t0 =
     Jwt \<lparr>j_id = toHexString (u_id u), j_email = u_email u, j_role = u_role u\<rparr>
       t0 (t0 + 7 * 24 * 60 * 60) (JWT_SECRET e)
   \<and> generateAdminToken e adminUser t0 =
     Jwt \<lparr>j_id = ''admin'', j_email = ''admin@system.com'', j_role = ''admin''\<rparr>
       t0 (t0 + 24 * 60 * 60) (JWT_SECRET e)
   \<and> (r_body (login e s lb t0) = LoggedIn tok v \<longrightarrow>
        (\<exists>u' \<in> set (users s). tok = generateAuthToken e u' t0))
   \<and> (r_body (admin_login e ab t0) = AdminLoggedIn tok' role' name' \<longrightarrow>
        tok' = generateAdminToken e adminUser t0)
   \<and> jwt_verify (generateAuthToken e u t0) (JWT_SECRET e) now =
        (if now < t0 + 7 * 24 * 60 * 60
         then Some \<lparr>j_id = toHexString (u_id u), j_email = u_email u, j_role = u_role u\<rparr>
         else None)
   \<and> jwt_verify (generateAdminToken e adminUser t0) (JWT_SECRET e) now =
        (if now < t0 + 24 * 60 * 60
         then Some \<lparr>j_id = ''admin'', j_email = ''admin@system.com'', j_role = ''admin''\<rparr>
         else None)
   \<and> (exp \<le> now \<longrightarrow> jwt_verify (Jwt c iat exp k) secret now = None)"
proof -
  have emp: "generateAuthToken e u t0 =
     Jwt \<lparr>j_id = toHexString (u_id u), j_email = u_email u, j_role = u_role u\<rparr>
       t0 (t0 + 7 * 24 * 60 * 60) (JWT_SECRET e)"
    by (simp add: generateAuthToken_def jwt_sign_def)
  have adm: "generateAdminToken e adminUser t0 =
     Jwt \<lparr>j_id = ''admin'', j_email = ''admin@system.com'', j_role = ''admin''\<rparr>
       t0 (t0 + 24 * 60 * 60) (JWT_SECRET e)"
    by (simp add: generateAdminToken_def jwt_sign_def adminUser_def)
  have issued: "r_body (login e s lb t0) = LoggedIn tok v \<longrightarrow>
        (\<exists>u' \<in> set (users s). tok = generateAuthToken e u' t0)"
    by (auto simp: login_def reply_def server_error_def Let_def findOne_employeeNumber_def
          split: if_splits option.splits sum.splits json.splits dest: find_SomeD)
  have issued_admin: "r_body (admin_login e ab t0) = AdminLoggedIn tok' role' name' \<longrightarrow>
        tok' = generateAdminToken e adminUser t0"
    by (auto simp: admin_login_def reply_def Let_def split: if_splits)
  have expired: "exp \<le> now \<longrightarrow> jwt_verify (Jwt c iat exp k) secret now = None"
    by simp
  show ?thesis
    using emp adm issued issued_admin expired by simp
qed

theorem C8_token_validity_windows_witness:
  "r_body (login ex_env ex_store ex_login 1000) =
     LoggedIn ex_token (select_minus_password ex_alice)
   \<and> (\<exists>u' \<in> set (users ex_store). ex_token = generateAuthToken ex_env u' 1000)
   \<and> r_body (admin_login ex_env ex_admin_login 1000) = AdminLoggedIn ex_admin_token ''admin'' ''root''
   \<and> ex_admin_token = generateAdminToken ex_env adminUser 1000
   \<and> jwt_verify ex_token (JWT_SECRET ex_env) 605800 = None
   \<and> jwt_verify ex_admin_token (JWT_SECRET ex_env) 87400 = None
   \<and> (605800::nat) \<le> 605800
   \<and> jwt_verify (Jwt adminUser 1000 605800 ''k'') ''k'' 605800 = None"
proof -
  have l: "r_body (login ex_env ex_store ex_login 1000) =
     LoggedIn ex_token (select_minus_password ex_alice)"
    by (simp add: eval_defs)
  have a: "r_body (admin_login ex_env ex_admin_login 1000) =
     AdminLoggedIn ex_admin_token ''admin'' ''root''"
    by (simp add: eval_defs)
  note inst =
      C8_token_validity_windows [of ex_env ex_alice 1000 ex_store ex_login ex_token
        "select_minus_password ex_alice" ex_admin_login ex_admin_token "''admin''" "''root''"
        605800 605800 adminUser 1000 "''k''" "''k''"]
  from inst l have issued: "\<exists>u' \<in> set (users ex_store). ex_token = generateAuthToken ex_env u' 1000"
    by blast
  from inst a have issued_admin: "ex_admin_token = generateAdminToken ex_env adminUser 1000"
    by blast
  from inst have gone: "jwt_verify ex_token (JWT_SECRET ex_env) 605800 = None"
    by (simp add: ex_token_def)
  from inst have last: "jwt_verify (Jwt adminUser 1000 605800 ''k'') ''k'' 605800 = None"
    by blast
  have gone_admin: "jwt_verify ex_admin_token (JWT_SECRET ex_env) 87400 = None"
    using C8_token_validity_windows [of ex_env ex_alice 1000 ex_store ex_login ex_token
        "select_minus_password ex_alice" ex_admin_login ex_admin_token "''admin''" "''root''"
        87400 0 adminUser 0 "''k''" "''k''"]
    by (simp add: ex_admin_token_def)
  from l issued a issued_admin gone gone_admin last show ?thesis
    by simp
qed

section \<open>The employee gate\<close>

lemma login_ok_token:
  assumes "login e s b t0 = reply 200 (LoggedIn tok v)"
  shows "\<exists>u. tok = generateAuthToken e u t0 \<and> v = select_minus_password u"
  using assms
  by (auto simp: login_def reply_def server_error_def Let_def
      split: if_splits option.splits sum.splits)

lemma update_approval_ok:
  assumes "update_approval s id' lit = (r, s')" and "r_status r = 200"
  shows "\<exists>i u st. lit = JStr st \<and> castObjectId id' = Some i \<and>
           find (\<lambda>u. u_id u = i) (users s) = Some u \<and>
           r = reply 200 (UserDoc (u\<lparr>u_approvalStatus := st\<rparr>)) \<and>
           s' = s\<lparr>users := update_first (\<lambda>u. u_id u = i) (\<lambda>u. u\<lparr>u_approvalStatus := st\<rparr>) (users s)\<rparr>"
  using assms
  by (auto simp: update_approval_def User_findByIdAndUpdate_def reply_def server_error_def
      the_String_def split: if_splits option.splits sum.splits)

lemma patch_approval_ok:
  assumes "patch_approval e s header now id' lit = (r, s')" and "r_status r = 200"
  shows "update_approval s id' lit = (r, s')"
  using assms
  by (auto simp: patch_approval_def adminMiddleware_def reply_def
      split: sum.splits option.splits if_splits)

text \<open>
  Claim C1. Take any token the login route issued to an employee account. If the admin
  approval route afterwards, on whatever the store then holds and with a route
  parameter that is the text of the account's \<open>_id\<close>, succeeds in setting that
  account's \<open>approvalStatus\<close> to a value other than \<open>'approved'\<close>, then on the store this
  leaves, the employee gate answers a request carrying the same token, at any instant
  before the token's expiry, with 403 \<open>Account not approved\<close>, and so does each of
  the three routes behind the gate, without touching the store: the gate looks the
  token's subject up in the users collection and reads the status stored there.
\<close>

theorem C1_gate_rechecks_approval:
  assumes issued: "login e s0 b t0 = reply 200 (LoggedIn tok v)"
      and changed: "patch_approval e s header t1 id' (JStr st) = (r, s')"
      and target: "castObjectId id' = Some (v_id v)"
      and ok: "r_status r = 200"
      and away: "st \<noteq> ''approved''"
      and unexpired: "now < t0 + 7 * 24 * 60 * 60"
  shows "authMiddleware e s' (Some tok) now =
           Inl (reply 403 (Message False ''Account not approved''))
         \<and> get_complaints e s' (Some tok) now =
             reply 403 (Message False ''Account not approved'')
         \<and> post_complaints e s' (Some tok) now cb fresh =
             (reply 403 (Message False ''Account not approved''), s')
         \<and> get_complaint e s' (Some tok) now ci =
             reply 403 (Message False ''Account not approved'')"
proof -
  from issued obtain u where
      tok: "tok = generateAuthToken e u t0" and v: "v = select_minus_password u"
    using login_ok_token by blast
  have i: "v_id v = u_id u"
    by (simp add: v select_minus_password_def)
  from unexpired have verified:
    "jwt_verify tok (JWT_SECRET e) now =
       Some \<lparr>j_id = toHexString (u_id u), j_email = u_email u, j_role = u_role u\<rparr>"
    by (simp add: tok generateAuthToken_def jwt_verify_own_token)
  from changed ok have "update_approval s id' (JStr st) = (r, s')"
    by (rule patch_approval_ok)
  with ok target i obtain u' where
      found: "find (\<lambda>x. u_id x = u_id u) (users s) = Some u'" and
      s': "s' = s\<lparr>users := update_first (\<lambda>x. u_id x = u_id u)
                  (\<lambda>x. x\<lparr>u_approvalStatus := st\<rparr>) (users s)\<rparr>"
    using update_approval_ok by force
  from found have resolved:
    "User_findById (users s') (toHexString (u_id u)) = Inr (Some (u'\<lparr>u_approvalStatus := st\<rparr>))"
    unfolding User_findById_def s' by (simp add: castObjectId_toHexString find_update_first)
  from verified resolved away have gate:
    "authMiddleware e s' (Some tok) now =
       Inl (reply 403 (Message False ''Account not approved''))"
    by (simp add: authMiddleware_def)
  then show ?thesis
    by (simp add: get_complaints_def post_complaints_def get_complaint_def)
qed

theorem C1_gate_rechecks_approval_witness:
  "login ex_env ex_store ex_login 1000 =
     reply 200 (LoggedIn ex_token (select_minus_password ex_alice))
   \<and> authMiddleware ex_env ex_store (Some ex_token) 1500 =
       Inr \<lparr>req_user = select_minus_password ex_alice, req_token = ex_token\<rparr>
   \<and> patch_approval ex_env ex_store (Some ex_admin_token) 2000
        ''000000000000000000000001'' (JStr ''rejected'') =
       (reply 200 (UserDoc (ex_alice\<lparr>u_approvalStatus := ''rejected''\<rparr>)), ex_rejected_store)
   \<and> castObjectId ''000000000000000000000001'' = Some (v_id (select_minus_password ex_alice))
   \<and> authMiddleware ex_env ex_rejected_store (Some ex_token) 3000 =
       Inl (reply 403 (Message False ''Account not approved''))
   \<and> get_complaints ex_env ex_rejected_store (Some ex_token) 3000 =
       reply 403 (Message False ''Account not approved'')"
proof -
  have l: "login ex_env ex_store ex_login 1000 =
     reply 200 (LoggedIn ex_token (select_minus_password ex_alice))"
    by (simp add: eval_defs)
  have before: "authMiddleware ex_env ex_store (Some ex_token) 1500 =
       Inr \<lparr>req_user = select_minus_password ex_alice, req_token = ex_token\<rparr>"
    by (simp add: eval_defs castObjectId_toHexString)
  have p: "patch_approval ex_env ex_store (Some ex_admin_token) 2000
             ''000000000000000000000001'' (JStr ''rejected'') =
       (reply 200 (UserDoc (ex_alice\<lparr>u_approvalStatus := ''rejected''\<rparr>)), ex_rejected_store)"
    by (simp add: eval_defs ex_id_cast ex_id_distinct)
  have t: "castObjectId ''000000000000000000000001'' = Some (v_id (select_minus_password ex_alice))"
    by (simp add: eval_defs ex_id_cast)
  from C1_gate_rechecks_approval [OF l p t, where now = 3000]
  have after: "authMiddleware ex_env ex_rejected_store (Some ex_token) 3000 =
       Inl (reply 403 (Message False ''Account not approved''))
     \<and> get_complaints ex_env ex_rejected_store (Some ex_token) 3000 =
       reply 403 (Message False ''Account not approved'')"
    by (simp add: reply_def)
  from l before p t after show ?thesis
    by simp
qed

section \<open>Login\<close>

lemma ex_wrong_password: "bcrypt_key ''wrong-password'' \<noteq> bcrypt_key ''hunter2!''"
proof
  assume "bcrypt_key ''wrong-password'' = bcrypt_key ''hunter2!''"
  then have "hd (bcrypt_key ''wrong-password'') = hd (bcrypt_key ''hunter2!'')"
    by simp
  then show False
    by (simp add: bcrypt_key_hd utf8_def utf8_unit_def)
qed

text \<open>
  The part of claim C3 that holds: when the identifier is a string and the password is
  a string, a stored account with a password that does not match and an identifier
  that no account has get the same answer, 401 \<open>Invalid credentials\<close> when both strings
  are not empty and 400 otherwise.
\<close>

lemma login_failures_same_for_string_passwords:
  assumes strings1: "b1 ''email'' = JStr n1" "b1 ''password'' = JStr p1"
      and strings2: "b2 ''email'' = JStr n2" "b2 ''password'' = JStr p2"
      and wrong_password:
        "find (\<lambda>u. u_employeeNumber u = n1) (users s1) = Some u"
        "comparePassword u (JStr p1) = Inr False"
      and unknown: "find (\<lambda>u. u_employeeNumber u = n2) (users s2) = None"
  shows "login e s1 b1 now1 =
           (if n1 \<noteq> [] \<and> p1 \<noteq> [] then reply 401 (Message False ''Invalid credentials'')
            else reply 400 (Message False ''Phone number and password required''))"
    and "login e s2 b2 now2 =
           (if n2 \<noteq> [] \<and> p2 \<noteq> [] then reply 401 (Message False ''Invalid credentials'')
            else reply 400 (Message False ''Phone number and password required''))"
  using assms by (simp_all add: login_def findOne_employeeNumber_def Let_def)

text \<open>
  Claim C3 at a password that is not a string. Alice's number is stored, 9000000000 is
  not. A login with the JSON number 123456 as the password is answered 500 for Alice's
  number (\<open>bcrypt.compare\<close> throws on a candidate that is not a string, and the catch
  block answers) and 401 \<open>Invalid credentials\<close> for the unknown number (the lookup finds
  nothing and the comparison is never made): the two answers tell a stored identifier
  from an unknown one.
\<close>

theorem C3_nonstring_password_tells_accounts_apart:
  "findOne_employeeNumber (users ex_store) (JStr ''9876543210'') = Inr (Some ex_alice)
   \<and> findOne_employeeNumber (users ex_store) (JStr ''9000000000'') = Inr None
   \<and> login ex_env ex_store
        (no_fields(''email'' := JStr ''9876543210'', ''password'' := JNum ''123456'')) 1000 =
       reply 500 (Message False ''Server error occurred'')
   \<and> login ex_env ex_store
        (no_fields(''email'' := JStr ''9000000000'', ''password'' := JNum ''123456'')) 1000 =
       reply 401 (Message False ''Invalid credentials'')"
  by (simp add: eval_defs)

theorem C3_nonstring_password_tells_accounts_apart_witness:
  "r_status (login ex_env ex_store
      (no_fields(''email'' := JStr ''9876543210'', ''password'' := JNum ''123456'')) 1000) = 500
   \<and> r_status (login ex_env ex_store
      (no_fields(''email'' := JStr ''9000000000'', ''password'' := JNum ''123456'')) 1000) = 401"
  using C3_nonstring_password_tells_accounts_apart by (simp add: reply_def)

text \<open>
  Claim C4, as stated, fails for the attempts whose password does not match: Bob's
  account is pending, and a login naming it with another password is answered 401
  \<open>Invalid credentials\<close>, not 403 (the credentials are checked before the approval
  status). No token is issued.
\<close>

theorem C4_wrong_password_is_401:
  "findOne_employeeNumber (users ex_store) (JStr ''9123456780'') = Inr (Some ex_bob)
   \<and> u_approvalStatus ex_bob = ''pending''
   \<and> login ex_env ex_store
        (no_fields(''email'' := JStr ''9123456780'', ''password'' := JStr ''wrong-password'')) 1000 =
       reply 401 (Message False ''Invalid credentials'')
   \<and> r_status (login ex_env ex_store
        (no_fields(''email'' := JStr ''9123456780'', ''password'' := JStr ''wrong-password'')) 1000)
       \<noteq> 403"
  by (simp add: eval_defs ex_wrong_password)

text \<open>
  Claim C4, amended. A login attempt that names, by its identifier, an account whose
  \<open>approvalStatus\<close> is \<open>'pending'\<close> or \<open>'rejected'\<close> always fails and is never answered
  with a token; when the identifier is present and the password is a string that
  matches the stored digest, the answer is 403.
\<close>

theorem C4_unapproved_cannot_login:
  assumes ident: "cast_String (b ''email'') = Inr (Some n)"
      and account: "find (\<lambda>u. u_employeeNumber u = n) (users s) = Some u"
      and unapproved: "u_approvalStatus u = ''pending'' \<or> u_approvalStatus u = ''rejected''"
  shows "issued_token (login e s b now) = None
         \<and> r_status (login e s b now) \<noteq> 200
         \<and> (truthy (b ''email'') \<and> b ''password'' = JStr p \<and> p \<noteq> [] \<and>
            comparePassword u (JStr p) = Inr True \<longrightarrow>
              r_status (login e s b now) = 403 \<and>
              (\<exists>m. login e s b now = reply 403 (Message False m)))"
proof -
  let ?r = "login e s b now"
  from ident account have lookup:
    "findOne_employeeNumber (users s) (b ''email'') = Inr (Some u)"
    by (cases "b ''email''") (simp_all add: findOne_employeeNumber_def)
  from lookup unapproved have outcome:
    "?r = reply 400 (Message False ''Phone number and password required'')
     \<or> ?r = reply 401 (Message False ''Invalid credentials'')
     \<or> ?r = reply 403 (Message False ''Account pending approval'')
     \<or> ?r = reply 403 (Message False ''Account rejected. Contact HR.'')
     \<or> ?r = server_error"
    by (auto simp: login_def Let_def split: sum.splits)
  then have no_token: "issued_token ?r = None"
    by (auto simp: issued_token_def reply_def server_error_def)
  from outcome have failed: "r_status ?r \<noteq> 200"
    by (auto simp: reply_def server_error_def)
  have matching: "truthy (b ''email'') \<and> b ''password'' = JStr p \<and> p \<noteq> [] \<and>
      comparePassword u (JStr p) = Inr True \<longrightarrow>
        r_status ?r = 403 \<and> (\<exists>m. ?r = reply 403 (Message False m))"
    using lookup unapproved by (auto simp: login_def Let_def reply_def)
  from no_token failed matching show ?thesis
    by blast
qed

theorem C4_unapproved_cannot_login_witness:
  "cast_String (JStr ''9123456780'') = Inr (Some ''9123456780'')
   \<and> find (\<lambda>u. u_employeeNumber u = ''9123456780'') (users ex_store) = Some ex_bob
   \<and> u_approvalStatus ex_bob = ''pending''
   \<and> comparePassword ex_bob (JStr ''hunter2!'') = Inr True
   \<and> issued_token (login ex_env ex_store
        (no_fields(''email'' := JStr ''9123456780'', ''password'' := JStr ''hunter2!'')) 1000) = None
   \<and> r_status (login ex_env ex_store
        (no_fields(''email'' := JStr ''9123456780'', ''password'' := JStr ''hunter2!'')) 1000) = 403
   \<and> find (\<lambda>u. u_employeeNumber u = ''9876543210'') (users ex_rejected_store) =
        Some (ex_alice\<lparr>u_approvalStatus := ''rejected''\<rparr>)
   \<and> comparePassword (ex_alice\<lparr>u_approvalStatus := ''rejected''\<rparr>) (JStr ''secret1'') = Inr True
   \<and> issued_token (login ex_env ex_rejected_store ex_login 1000) = None
   \<and> r_status (login ex_env ex_rejected_store ex_login 1000) = 403"
proof -
  let ?b = "no_fields(''email'' := JStr ''9123456780'', ''password'' := JStr ''hunter2!'')"
  let ?a = "ex_alice\<lparr>u_approvalStatus := ''rejected''\<rparr>"
  have bob_id: "cast_String (?b ''email'') = Inr (Some ''9123456780'')"
    by simp
  have bob: "find (\<lambda>u. u_employeeNumber u = ''9123456780'') (users ex_store) = Some ex_bob"
    by (simp add: eval_defs)
  have bob_pending: "u_approvalStatus ex_bob = ''pending''"
    by (simp add: ex_bob_def)
  have bob_pw: "comparePassword ex_bob (JStr ''hunter2!'') = Inr True"
    by (simp add: eval_defs)
  have alice_id: "cast_String (ex_login ''email'') = Inr (Some ''9876543210'')"
    by (simp add: ex_login_def)
  have alice: "find (\<lambda>u. u_employeeNumber u = ''9876543210'') (users ex_rejected_store) = Some ?a"
    by (simp add: eval_defs)
  have alice_pw: "comparePassword ?a (JStr ''secret1'') = Inr True"
    by (simp add: eval_defs)
  from C4_unapproved_cannot_login [where b = ?b and p = "''hunter2!''" and e = ex_env
      and now = 1000, OF bob_id bob] bob_pending bob_pw
  have one: "issued_token (login ex_env ex_store ?b 1000) = None
             \<and> r_status (login ex_env ex_store ?b 1000) = 403"
    by simp
  from C4_unapproved_cannot_login [where b = ex_login and p = "''secret1''" and e = ex_env
      and now = 1000, OF alice_id alice] alice_pw
  have two: "issued_token (login ex_env ex_rejected_store ex_login 1000) = None
             \<and> r_status (login ex_env ex_rejected_store ex_login 1000) = 403"
    by (simp add: ex_login_def)
  from bob bob_pending bob_pw alice alice_pw one two show ?thesis
    by simp
qed

section \<open>The admin routes\<close>

lemma update_status_outcomes:
  "update_status s id' lit =
     (if lit \<notin> set (map JStr [''pending'', ''received'', ''resolved''])
      then (reply 400 (Message False ''Invalid status''), s)
      else case Complaint_findById (complaints s) id' of
             Inl err \<Rightarrow> (server_error, s)
           | Inr None \<Rightarrow> (reply 404 (Message False ''Complaint not found''), s)
           | Inr (Some c) \<Rightarrow>
               (reply 200 (ComplaintDoc (c\<lparr>c_status := Some (the_String lit)\<rparr>)),
                s\<lparr>complaints := update_first (\<lambda>c. c_id c = the (castObjectId id'))
                      (\<lambda>c. c\<lparr>c_status := Some (the_String lit)\<rparr>) (complaints s)\<rparr>))"
  by (simp add: update_status_def Complaint_findByIdAndUpdate_def Complaint_findById_def
      split: option.splits)

lemma update_approval_outcomes:
  "update_approval s id' lit =
     (if lit \<notin> set (map JStr [''approved'', ''rejected'', ''pending''])
      then (reply 400 (Message False ''Invalid approval status''), s)
      else case User_findById (users s) id' of
             Inl err \<Rightarrow> (server_error, s)
           | Inr None \<Rightarrow> (reply 404 (Message False ''User not found''), s)
           | Inr (Some u) \<Rightarrow>
               (reply 200 (UserDoc (u\<lparr>u_approvalStatus := the_String lit\<rparr>)),
                s\<lparr>users := update_first (\<lambda>u. u_id u = the (castObjectId id'))
                      (\<lambda>u. u\<lparr>u_approvalStatus := the_String lit\<rparr>) (users s)\<rparr>))"
  by (simp add: update_approval_def User_findByIdAndUpdate_def User_findById_def
      split: option.splits)

lemma map_update_first:
  assumes "\<And>y. k (f y) = k y"
  shows "map k (update_first p f xs) = map k xs"
  using assms by (induction xs) auto

lemma set_delete_first: "set (delete_first p xs) \<subseteq> set xs"
  by (induction xs) auto

lemma distinct_delete_first:
  "distinct (map k xs) \<Longrightarrow> distinct (map k (delete_first p xs))"
proof (induction xs)
  case Nil
  then show ?case by simp
next
  case (Cons x xs)
  have "k ` set (delete_first p xs) \<subseteq> k ` set xs"
    using set_delete_first by (rule image_mono)
  with Cons show ?case by auto
qed

lemma find_filter_None: "find p (filter (\<lambda>x. \<not> p x) xs) = None"
  by (induction xs) auto

text \<open>
  No handler leaves two documents of a collection with the same \<open>_id\<close>.
\<close>

lemma register_wf:
  assumes "wf_store s"
  shows "wf_store (snd (register s b salt fresh))"
  using assms
  by (auto simp: register_def User_create_def pre_save_def wf_store_def Let_def
      split: sum.splits if_splits option.splits)

lemma post_complaints_wf:
  assumes "wf_store s"
  shows "wf_store (snd (post_complaints e s header now b fresh))"
  using assms
  by (auto simp: post_complaints_def Complaint_create_def wf_store_def Let_def
      split: sum.splits if_splits)

lemma patch_approval_wf:
  assumes "wf_store s"
  shows "wf_store (snd (patch_approval e s header now id' lit))"
  using assms
  by (auto simp: patch_approval_def update_approval_outcomes wf_store_def map_update_first
      split: sum.splits option.splits)

lemma patch_status_wf:
  assumes "wf_store s"
  shows "wf_store (snd (patch_status e s header now id' lit))"
  using assms
  by (auto simp: patch_status_def update_status_outcomes wf_store_def map_update_first
      split: sum.splits option.splits)

lemma delete_user_wf:
  assumes "wf_store s"
  shows "wf_store (snd (delete_user e s header now userId))"
  using assms
  by (auto simp: delete_user_def delete_user_handler_def User_findByIdAndDelete_def
      Complaint_deleteMany_def wf_store_def distinct_delete_first distinct_map_filter
      split: sum.splits option.splits)

lemma delete_complaint_wf:
  assumes "wf_store s"
  shows "wf_store (snd (delete_complaint e s header now id'))"
  using assms
  by (auto simp: delete_complaint_def delete_complaint_handler_def
      Complaint_findByIdAndDelete_def wf_store_def distinct_delete_first
      split: sum.splits option.splits)

text \<open>
  Claim C6. On a store whose documents have distinct \<open>_id\<close>s, the delete-user route,
  past the admin gate and for a route parameter that resolves to a stored account,
  answers 200 and leaves the users collection without that account and the complaints
  collection without the complaints whose \<open>employeeId\<close> is the account's \<open>_id\<close>; every
  other user and every complaint of another owner stays, unchanged and in its place.
\<close>

theorem C6_delete_user_cascade:
  assumes gate: "adminMiddleware e header now = Inr ctx"
      and account: "User_findById (users s) userId = Inr (Some u)"
      and ids: "wf_store s"
  shows "delete_user e s header now userId =
           (reply 200 (Message True ''User and associated complaints deleted successfully''),
            \<lparr>users = filter (\<lambda>x. u_id x \<noteq> u_id u) (users s),
             complaints = filter (\<lambda>c. c_employeeId c \<noteq> u_id u) (complaints s)\<rparr>)
         \<and> User_findById (users (snd (delete_user e s header now userId))) userId = Inr None
         \<and> set (complaints (snd (delete_user e s header now userId))) =
             {c \<in> set (complaints s). c_employeeId c \<noteq> u_id u}"
proof -
  from account obtain i where
      cast: "castObjectId userId = Some i" and found: "find (\<lambda>x. u_id x = i) (users s) = Some u"
    by (auto simp: User_findById_def split: option.splits)
  from found have i: "i = u_id u"
    by (auto dest: find_SomeD)
  from ids have "distinct (map u_id (users s))"
    by (simp add: wf_store_def)
  then have removed:
    "delete_first (\<lambda>x. u_id x = i) (users s) = filter (\<lambda>x. u_id x \<noteq> i) (users s)"
    by (rule delete_first_distinct)
  from gate cast found removed have result:
    "delete_user e s header now userId =
       (reply 200 (Message True ''User and associated complaints deleted successfully''),
        \<lparr>users = filter (\<lambda>x. u_id x \<noteq> i) (users s),
         complaints = filter (\<lambda>c. c_employeeId c \<noteq> i) (complaints s)\<rparr>)"
    by (simp add: delete_user_def delete_user_handler_def User_findByIdAndDelete_def
        Complaint_deleteMany_def)
  have gone: "User_findById (filter (\<lambda>x. u_id x \<noteq> i) (users s)) userId = Inr None"
    unfolding User_findById_def using cast find_filter_None [of "\<lambda>x. u_id x = i"] by simp
  from result gone show ?thesis
    unfolding i by auto
qed

theorem C6_delete_user_cascade_witness:
  "adminMiddleware ex_env (Some ex_admin_token) 2000 =
     Inr \<lparr>req_admin = adminUser, req_admin_token = ex_admin_token\<rparr>
   \<and> User_findById (users ex_store) ''000000000000000000000001'' = Inr (Some ex_alice)
   \<and> wf_store ex_store
   \<and> delete_user ex_env ex_store (Some ex_admin_token) 2000 ''000000000000000000000001'' =
       (reply 200 (Message True ''User and associated complaints deleted successfully''),
        \<lparr>users = [ex_bob], complaints = [ex_complaint ex_id2 ex_id2 ''resolved'']\<rparr>)"
proof -
  have gate: "adminMiddleware ex_env (Some ex_admin_token) 2000 =
     Inr \<lparr>req_admin = adminUser, req_admin_token = ex_admin_token\<rparr>"
    by (simp add: eval_defs)
  have account: "User_findById (users ex_store) ''000000000000000000000001'' = Inr (Some ex_alice)"
    by (simp add: eval_defs ex_id_cast)
  have ids: "wf_store ex_store"
    by (simp add: wf_store_def eval_defs ex_id_distinct)
  from C6_delete_user_cascade [OF gate account ids]
  have "delete_user ex_env ex_store (Some ex_admin_token) 2000 ''000000000000000000000001'' =
       (reply 200 (Message True ''User and associated complaints deleted successfully''),
        \<lparr>users = filter (\<lambda>x. u_id x \<noteq> u_id ex_alice) (users ex_store),
         complaints = filter (\<lambda>c. c_employeeId c \<noteq> u_id ex_alice) (complaints ex_store)\<rparr>)"
    by blast
  then have "delete_user ex_env ex_store (Some ex_admin_token) 2000 ''000000000000000000000001'' =
       (reply 200 (Message True ''User and associated complaints deleted successfully''),
        \<lparr>users = [ex_bob], complaints = [ex_complaint ex_id2 ex_id2 ''resolved'']\<rparr>)"
    by (simp add: ex_store_def ex_alice_def ex_bob_def ex_complaint_def ex_id_distinct)
  with gate account ids show ?thesis
    by simp
qed

text \<open>
  The part of claim C7 that holds. Past the admin gate, the status route accepts each
  of \<open>'pending'\<close>, \<open>'received'\<close> and \<open>'resolved'\<close> for a stored complaint whatever its
  current status; any other value of the \<open>status\<close> field, or none, is answered 400
  \<open>Invalid status\<close>; one of the three values with a route parameter that is the text
  of an ObjectId of no stored complaint is answered 404 \<open>Complaint not found\<close>.
\<close>

lemma status_route_outcomes:
  assumes gate: "adminMiddleware e header now = Inr ctx"
  shows "(Complaint_findById (complaints s) id' = Inr (Some c) \<and>
          st \<in> {''pending'', ''received'', ''resolved''} \<longrightarrow>
            fst (patch_status e s header now id' (JStr st)) =
              reply 200 (ComplaintDoc (c\<lparr>c_status := Some st\<rparr>)) \<and>
            Complaint_findById (complaints (snd (patch_status e s header now id' (JStr st)))) id' =
              Inr (Some (c\<lparr>c_status := Some st\<rparr>)))
         \<and> (lit \<notin> {JStr ''pending'', JStr ''received'', JStr ''resolved''} \<longrightarrow>
              patch_status e s header now id' lit =
                (reply 400 (Message False ''Invalid status''), s))
         \<and> (Complaint_findById (complaints s) id' = Inr None \<and>
            st \<in> {''pending'', ''received'', ''resolved''} \<longrightarrow>
              patch_status e s header now id' (JStr st) =
                (reply 404 (Message False ''Complaint not found''), s))"
proof -
  from gate have route: "\<And>lit. patch_status e s header now id' lit = update_status s id' lit"
    by (simp add: patch_status_def)
  have accepted: "Complaint_findById (complaints s) id' = Inr (Some c) \<and>
          st \<in> {''pending'', ''received'', ''resolved''} \<longrightarrow>
            fst (update_status s id' (JStr st)) = reply 200 (ComplaintDoc (c\<lparr>c_status := Some st\<rparr>)) \<and>
            Complaint_findById (complaints (snd (update_status s id' (JStr st)))) id' =
              Inr (Some (c\<lparr>c_status := Some st\<rparr>))"
  proof (intro impI, elim conjE)
    assume resolves: "Complaint_findById (complaints s) id' = Inr (Some c)"
       and lit: "st \<in> {''pending'', ''received'', ''resolved''}"
    from resolves obtain i where
        cast: "castObjectId id' = Some i" and found: "find (\<lambda>c. c_id c = i) (complaints s) = Some c"
      by (auto simp: Complaint_findById_def split: option.splits)
    from found have "find (\<lambda>c. c_id c = i)
        (update_first (\<lambda>c. c_id c = i) (\<lambda>c. c\<lparr>c_status := Some st\<rparr>) (complaints s)) =
          Some (c\<lparr>c_status := Some st\<rparr>)"
      by (simp add: find_update_first)
    with resolves cast lit show "fst (update_status s id' (JStr st)) =
        reply 200 (ComplaintDoc (c\<lparr>c_status := Some st\<rparr>)) \<and>
        Complaint_findById (complaints (snd (update_status s id' (JStr st)))) id' =
          Inr (Some (c\<lparr>c_status := Some st\<rparr>))"
      by (auto simp: update_status_outcomes Complaint_findById_def the_String_def)
  qed
  have invalid: "lit \<notin> {JStr ''pending'', JStr ''received'', JStr ''resolved''} \<longrightarrow>
      update_status s id' lit = (reply 400 (Message False ''Invalid status''), s)"
    by (simp add: update_status_outcomes)
  have missing: "Complaint_findById (complaints s) id' = Inr None \<and>
      st \<in> {''pending'', ''received'', ''resolved''} \<longrightarrow>
        update_status s id' (JStr st) = (reply 404 (Message False ''Complaint not found''), s)"
    by (auto simp: update_status_outcomes)
  from accepted invalid missing show ?thesis
    unfolding route by blast
qed

text \<open>
  Claim C7 at a route parameter that is not the text of an ObjectId. With the admin's
  token and the status \<open>'pending'\<close>, the parameter \<open>abc\<close> resolves to no stored
  complaint; the query throws on the cast and the catch block answers 500
  \<open>Server error occurred\<close>, not 404.
\<close>

theorem C7_malformed_id_is_500:
  "adminMiddleware ex_env (Some ex_admin_token) 2000 =
     Inr \<lparr>req_admin = adminUser, req_admin_token = ex_admin_token\<rparr>
   \<and> castObjectId ''abc'' = None
   \<and> Complaint_findById (complaints ex_store) ''abc'' = Inl CastError
   \<and> patch_status ex_env ex_store (Some ex_admin_token) 2000 ''abc'' (JStr ''pending'') =
       (reply 500 (Message False ''Server error occurred''), ex_store)"
proof -
  have gate: "adminMiddleware ex_env (Some ex_admin_token) 2000 =
     Inr \<lparr>req_admin = adminUser, req_admin_token = ex_admin_token\<rparr>"
    by (simp add: eval_defs)
  have cast: "castObjectId ''abc'' = None"
    by (rule ex_id_cast)
  from cast have lookup: "Complaint_findById (complaints ex_store) ''abc'' = Inl CastError"
    by (simp add: Complaint_findById_def)
  from gate lookup have
    "patch_status ex_env ex_store (Some ex_admin_token) 2000 ''abc'' (JStr ''pending'') =
       (reply 500 (Message False ''Server error occurred''), ex_store)"
    by (simp add: patch_status_def update_status_outcomes server_error_def)
  with gate cast lookup show ?thesis
    by simp
qed

text \<open>
  Claim C10. A status-update or approval-update request that is not answered 200 leaves
  the store exactly as it was, whether it stopped at the admin gate (401, 403), at the
  check of the literal (400) or at an id that resolves to nothing (404): the literal is
  checked before the store is touched, and an update of an id that is not there changes
  no document.
\<close>

theorem C10_failed_update_changes_nothing:
  "(r_status (fst (patch_status e s header now id' lit)) \<noteq> 200 \<longrightarrow>
      snd (patch_status e s header now id' lit) = s)
   \<and> (r_status (fst (patch_approval e s header now id' lit)) \<noteq> 200 \<longrightarrow>
      snd (patch_approval e s header now id' lit) = s)
   \<and> (lit \<notin> set (map JStr [''pending'', ''received'', ''resolved'']) \<longrightarrow>
      update_status s id' lit = (reply 400 (Message False ''Invalid status''), s))
   \<and> (lit \<notin> set (map JStr [''approved'', ''rejected'', ''pending'']) \<longrightarrow>
      update_approval s id' lit = (reply 400 (Message False ''Invalid approval status''), s))
   \<and> (lit \<in> set (map JStr [''pending'', ''received'', ''resolved'']) \<and>
      Complaint_findById (complaints s) id' = Inr None \<longrightarrow>
      update_status s id' lit = (reply 404 (Message False ''Complaint not found''), s))
   \<and> (lit \<in> set (map JStr [''approved'', ''rejected'', ''pending'']) \<and>
      User_findById (users s) id' = Inr None \<longrightarrow>
      update_approval s id' lit = (reply 404 (Message False ''User not found''), s))"
proof -
  have status_handler: "r_status (fst (update_status s id' lit)) \<noteq> 200 \<longrightarrow>
      snd (update_status s id' lit) = s"
    by (simp add: update_status_outcomes reply_def split: option.splits sum.splits)
  have approval_handler: "r_status (fst (update_approval s id' lit)) \<noteq> 200 \<longrightarrow>
      snd (update_approval s id' lit) = s"
    by (simp add: update_approval_outcomes reply_def split: option.splits sum.splits)
  from status_handler have a: "r_status (fst (patch_status e s header now id' lit)) \<noteq> 200 \<longrightarrow>
      snd (patch_status e s header now id' lit) = s"
    by (simp add: patch_status_def split: sum.splits)
  from approval_handler have b: "r_status (fst (patch_approval e s header now id' lit)) \<noteq> 200 \<longrightarrow>
      snd (patch_approval e s header now id' lit) = s"
    by (simp add: patch_approval_def split: sum.splits)
  have c: "lit \<notin> set (map JStr [''pending'', ''received'', ''resolved'']) \<longrightarrow>
      update_status s id' lit = (reply 400 (Message False ''Invalid status''), s)"
    by (simp add: update_status_outcomes)
  have d: "lit \<notin> set (map JStr [''approved'', ''rejected'', ''pending'']) \<longrightarrow>
      update_approval s id' lit = (reply 400 (Message False ''Invalid approval status''), s)"
    by (simp add: update_approval_outcomes)
  have f: "lit \<in> set (map JStr [''pending'', ''received'', ''resolved'']) \<and>
      Complaint_findById (complaints s) id' = Inr None \<longrightarrow>
      update_status s id' lit = (reply 404 (Message False ''Complaint not found''), s)"
    by (auto simp: update_status_outcomes)
  have g: "lit \<in> set (map JStr [''approved'', ''rejected'', ''pending'']) \<and>
      User_findById (users s) id' = Inr None \<longrightarrow>
      update_approval s id' lit = (reply 404 (Message False ''User not found''), s)"
    by (auto simp: update_approval_outcomes)
  from a b c d f g show ?thesis by blast
qed

theorem C10_failed_update_changes_nothing_witness:
  "r_status (fst (patch_status ex_env ex_store (Some ex_admin_token) 2000
      ''000000000000000000000001'' (JStr ''closed''))) = 400
   \<and> snd (patch_status ex_env ex_store (Some ex_admin_token) 2000
      ''000000000000000000000001'' (JStr ''closed'')) = ex_store
   \<and> r_status (fst (patch_approval ex_env ex_store (Some ex_admin_token) 2000
      ''000000000000000000000003'' (JStr ''approved''))) = 404
   \<and> snd (patch_approval ex_env ex_store (Some ex_admin_token) 2000
      ''000000000000000000000003'' (JStr ''approved'')) = ex_store
   \<and> r_status (fst (patch_approval ex_env ex_store (Some ex_token) 2000
      ''000000000000000000000001'' (JStr ''rejected''))) = 403
   \<and> snd (patch_approval ex_env ex_store (Some ex_token) 2000
      ''000000000000000000000001'' (JStr ''rejected'')) = ex_store"
proof -
  have a: "r_status (fst (patch_status ex_env ex_store (Some ex_admin_token) 2000
      ''000000000000000000000001'' (JStr ''closed''))) = 400"
    by (simp add: eval_defs)
  have b: "r_status (fst (patch_approval ex_env ex_store (Some ex_admin_token) 2000
      ''000000000000000000000003'' (JStr ''approved''))) = 404"
    by (simp add: eval_defs ex_id_cast ex_id_distinct)
  have c: "r_status (fst (patch_approval ex_env ex_store (Some ex_token) 2000
      ''000000000000000000000001'' (JStr ''rejected''))) = 403"
    by (simp add: eval_defs)
  from a C10_failed_update_changes_nothing [of ex_env ex_store "Some ex_admin_token" 2000
      "''000000000000000000000001''" "JStr ''closed''"]
  have a': "snd (patch_status ex_env ex_store (Some ex_admin_token) 2000
      ''000000000000000000000001'' (JStr ''closed'')) = ex_store"
    by simp
  from b C10_failed_update_changes_nothing [of ex_env ex_store "Some ex_admin_token" 2000
      "''000000000000000000000003''" "JStr ''approved''"]
  have b': "snd (patch_approval ex_env ex_store (Some ex_admin_token) 2000
      ''000000000000000000000003'' (JStr ''approved'')) = ex_store"
    by simp
  from c C10_failed_update_changes_nothing [of ex_env ex_store "Some ex_token" 2000
      "''000000000000000000000001''" "JStr ''rejected''"]
  have c': "snd (patch_approval ex_env ex_store (Some ex_token) 2000
      ''000000000000000000000001'' (JStr ''rejected'')) = ex_store"
    by simp
  from a a' b b' c c' show ?thesis
    by simp
qed

section \<open>Creating a complaint\<close>




section \<open>Registration\<close>

lemma find_append_new:
  assumes "find p xs = None" and "p x"
  shows "find p (xs @ [x]) = Some x"
  using assms by (induction xs) (auto split: if_splits)

lemma find_None_iff_all: "find p xs = None \<longleftrightarrow> (\<forall>x \<in> set xs. \<not> p x)"
  by (induction xs) auto

text \<open>
  The part of claim C5 that holds. For a request as the repository's client sends it
  (strings for the required fields, no \<open>email\<close>), with a 10-digit number that no stored
  account has, a password of at least 6 characters, a generated address that no stored
  account has, and a new ObjectId drawn for the document: the route answers 201 and
  appends one account, with \<open>approvalStatus\<close> \<open>'pending'\<close>, the role \<open>'employee'\<close> and
  the digest of the password; on the store this leaves, every registration that gives
  the same number is answered 400 and leaves the store as it is.
\<close>

lemma register_pending_then_duplicate:
  assumes fields: "b ''name'' = JStr nm" "nm \<noteq> []" "b ''department'' = JStr dept" "dept \<noteq> []"
        "b ''workLocation'' = JStr loc" "loc \<noteq> []" "b ''email'' = JUndefined"
      and number: "b ''employeeNumber'' = JStr n" "phoneRegex_test (JStr n)"
      and password: "b ''password'' = JStr pw" "6 \<le> length pw"
      and unused: "find (\<lambda>u. u_employeeNumber u = n) (users s) = None"
      and address_unused: "\<forall>u \<in> set (users s). u_email u \<noteq> n @ ''@complaintbox.local''"
      and new: "fresh \<notin> set (map u_id (users s))"
  shows "register s b salt fresh =
           (reply 201 (Registered ''Registration successful! Wait for admin approval.''
              fresh nm n),
            s\<lparr>users := users s @
              [\<lparr>u_id = fresh, u_name = nm, u_email = n @ ''@complaintbox.local'',
                u_password = Bcrypt salt (Plain (bcrypt_key pw)), u_employeeNumber = n,
                u_department = dept, u_workLocation = loc, u_role = ''employee'',
                u_approvalStatus = ''pending''\<rparr>]\<rparr>)"
    and "b' ''employeeNumber'' = JStr n \<Longrightarrow>
           r_status (fst (register (snd (register s b salt fresh)) b' salt' fresh')) = 400 \<and>
           snd (register (snd (register s b salt fresh)) b' salt' fresh') =
             snd (register s b salt fresh)"
proof -
  let ?doc = "\<lparr>u_id = fresh, u_name = nm, u_email = n @ ''@complaintbox.local'',
                u_password = Bcrypt salt (Plain (bcrypt_key pw)), u_employeeNumber = n,
                u_department = dept, u_workLocation = loc, u_role = ''employee'',
                u_approvalStatus = ''pending''\<rparr>"
  from number have n: "n \<noteq> []"
    by (auto simp: phoneRegex_test_def)
  from password have pw: "pw \<noteq> []" "\<not> length_less (JStr pw) 6"
    by (auto simp: length_less_def)
  from unused have lookup: "findOne_employeeNumber (users s) (JStr n) = Inr None"
    by (simp add: findOne_employeeNumber_def)
  from unused have number_free: "\<forall>u \<in> set (users s). u_employeeNumber u \<noteq> n"
    by (simp add: find_None_iff_all)
  from new have id_free: "\<forall>u \<in> set (users s). u_id u \<noteq> fresh"
    by auto
  from n pw fields address_unused number_free id_free
  have created: "User_create (users s)
      (no_fields(''name'' := JStr nm, ''email'' := JStr (n @ ''@complaintbox.local''),
         ''password'' := JStr pw, ''employeeNumber'' := JStr n, ''department'' := JStr dept,
         ''workLocation'' := JStr loc, ''approvalStatus'' := JStr ''pending''))
      salt fresh = Inr (?doc, users s @ [?doc])"
    by (simp add: User_create_def required_String_def the_String_def pre_save_def Let_def)
  from fields number password n pw lookup created
  show first: "register s b salt fresh =
      (reply 201 (Registered ''Registration successful! Wait for admin approval.'' fresh nm n),
       s\<lparr>users := users s @ [?doc]\<rparr>)"
    by (simp add: register_def Let_def)
  assume same: "b' ''employeeNumber'' = JStr n"
  from unused have "find (\<lambda>u. u_employeeNumber u = n) (users s @ [?doc]) = Some ?doc"
    by (rule find_append_new) simp
  then have taken: "findOne_employeeNumber (users s @ [?doc]) (JStr n) = Inr (Some ?doc)"
    by (simp add: findOne_employeeNumber_def)
  from same taken show
    "r_status (fst (register (snd (register s b salt fresh)) b' salt' fresh')) = 400 \<and>
     snd (register (snd (register s b salt fresh)) b' salt' fresh') =
       snd (register s b salt fresh)"
    unfolding first by (simp add: register_def Let_def reply_def)
qed

text \<open>
  Claim C5 at a generated address that is already stored. Dave's registration is
  answered 201 and stores his \<open>email\<close> field as sent. Carol's number 9000000001 is then
  a valid 10-digit identifier that no stored account has, her request has every
  required field and a password of 7 characters, and it is answered 500
  \<open>Server error occurred\<close>: the address generated from her number is Dave's, the unique
  index on \<open>email\<close> refuses the insert, and the catch block answers. No account is
  created.
\<close>

theorem C5_generated_email_collides:
  "register ex_store ex_dave_body 4 ex_id3 =
     (reply 201 (Registered ''Registration successful! Wait for admin approval.''
        ex_id3 ''Dave'' ''9000000002''),
      ex_store\<lparr>users := users ex_store @ [ex_dave]\<rparr>)
   \<and> findOne_employeeNumber (users ex_store @ [ex_dave]) (JStr ''9000000001'') = Inr None
   \<and> phoneRegex_test (ex_carol_body ''employeeNumber'')
   \<and> ex_carol_body ''password'' = JStr ''secret3''
   \<and> register (ex_store\<lparr>users := users ex_store @ [ex_dave]\<rparr>) ex_carol_body 5 ex_id4 =
       (reply 500 (Message False ''Server error occurred''),
        ex_store\<lparr>users := users ex_store @ [ex_dave]\<rparr>)"
  by (simp add: eval_defs ex_dave_body_def ex_dave_def ex_carol_body_def ex_id_distinct)

theorem C5_generated_email_collides_witness:
  "r_status (fst (register ex_store ex_dave_body 4 ex_id3)) = 201
   \<and> r_status (fst (register (ex_store\<lparr>users := users ex_store @ [ex_dave]\<rparr>)
        ex_carol_body 5 ex_id4)) = 500"
  using C5_generated_email_collides by (simp add: reply_def)

section \<open>The stored password\<close>

text \<open>
  The part of claim C9 that holds. Registration stores the digest of the password (the
  save hook runs on the new document), no other route writes the password field, so a
  store whose password fields are digests stays so; and the responses of registration,
  login and the two admin user listings carry no password field.
\<close>

lemma list_all_update_first:
  assumes "list_all q xs" and "\<And>x. q x \<Longrightarrow> q (f x)"
  shows "list_all q (update_first p f xs)"
  using assms by (induction xs) auto

lemma list_all_delete_first: "list_all q xs \<Longrightarrow> list_all q (delete_first p xs)"
  by (induction xs) auto

lemma User_create_stores_digest:
  assumes "User_create us doc salt fresh = Inr (u, us')"
  shows "us' = us @ [u] \<and> is_digest (u_password u)"
  using assms
  by (auto simp: User_create_def pre_save_def Let_def split: if_splits)

lemma register_keeps_secrets_hashed:
  assumes "secrets_hashed s"
  shows "secrets_hashed (snd (register s b salt fresh))"
  using assms
  by (auto simp: register_def Let_def secrets_hashed_def
      split: sum.split option.split prod.split dest!: User_create_stores_digest)

lemma patch_approval_keeps_secrets_hashed:
  assumes "secrets_hashed s"
  shows "secrets_hashed (snd (patch_approval e s header now id' lit))"
proof -
  from assms have "list_all (\<lambda>u. is_digest (u_password u))
      (update_first (\<lambda>u. u_id u = the (castObjectId id'))
         (\<lambda>u. u\<lparr>u_approvalStatus := the_String lit\<rparr>) (users s))"
    unfolding secrets_hashed_def by (rule list_all_update_first) simp
  with assms show ?thesis
    by (auto simp: patch_approval_def update_approval_outcomes secrets_hashed_def
        split: sum.splits option.splits)
qed

lemma delete_user_keeps_secrets_hashed:
  assumes "secrets_hashed s"
  shows "secrets_hashed (snd (delete_user e s header now userId))"
  using assms
  by (auto simp: delete_user_def delete_user_handler_def User_findByIdAndDelete_def
      Complaint_deleteMany_def secrets_hashed_def list_all_delete_first
      split: sum.splits option.splits)

lemma complaint_routes_keep_users:
  "users (snd (post_complaints e s header now b fresh)) = users s"
  "users (snd (patch_status e s header now id' lit)) = users s"
  "users (snd (delete_complaint e s header now id')) = users s"
  by (auto simp: post_complaints_def patch_status_def delete_complaint_def
      delete_complaint_handler_def update_status_outcomes Complaint_findByIdAndDelete_def
      split: sum.splits option.splits prod.splits)

lemma projected_responses_carry_no_secret:
  "body_secrets (r_body (fst (register s rb salt fresh))) = []"
  "body_secrets (r_body (login e s lb now)) = []"
  "body_secrets (r_body (admin_login e ab now)) = []"
  "body_secrets (r_body (get_users e s header now)) = []"
  "body_secrets (r_body (get_pending_users e s header now)) = []"
  by (auto simp: register_def login_def admin_login_def get_users_def get_pending_users_def
      adminMiddleware_def body_secrets_def reply_def server_error_def Let_def
      split: sum.splits option.splits if_splits prod.splits)

text \<open>
  Claim C9 at the approval route. With the admin's token, approving Bob's account is
  answered 200 with the whole user document that \<open>findByIdAndUpdate\<close> returned, and
  the document's password field is the digest the store holds for Bob: the response
  carries the stored secret field.
\<close>

theorem C9_approval_response_carries_stored_secret:
  "patch_approval ex_env ex_store (Some ex_admin_token) 2000 ''000000000000000000000002''
     (JStr ''approved'') =
     (reply 200 (UserDoc (ex_bob\<lparr>u_approvalStatus := ''approved''\<rparr>)),
      ex_store\<lparr>users := [ex_alice, ex_bob\<lparr>u_approvalStatus := ''approved''\<rparr>]\<rparr>)
   \<and> body_secrets (r_body (fst
        (patch_approval ex_env ex_store (Some ex_admin_token) 2000 ''000000000000000000000002''
           (JStr ''approved'')))) =
       [Bcrypt 9 (Plain (bcrypt_key ''hunter2!''))]
   \<and> map u_password (users ex_store) =
       [Bcrypt 7 (Plain (bcrypt_key ''secret1'')), Bcrypt 9 (Plain (bcrypt_key ''hunter2!''))]
   \<and> body_secrets (r_body (get_users ex_env ex_store (Some ex_admin_token) 2000)) = []"
proof -
  have answered:
    "patch_approval ex_env ex_store (Some ex_admin_token) 2000 ''000000000000000000000002''
       (JStr ''approved'') =
       (reply 200 (UserDoc (ex_bob\<lparr>u_approvalStatus := ''approved''\<rparr>)),
        ex_store\<lparr>users := [ex_alice, ex_bob\<lparr>u_approvalStatus := ''approved''\<rparr>]\<rparr>)"
    by (simp add: eval_defs ex_id_cast ex_id_distinct)
  have stored: "map u_password (users ex_store) =
      [Bcrypt 7 (Plain (bcrypt_key ''secret1'')), Bcrypt 9 (Plain (bcrypt_key ''hunter2!''))]"
    by (simp add: ex_store_def ex_alice_def ex_bob_def)
  have listing: "body_secrets (r_body (get_users ex_env ex_store (Some ex_admin_token) 2000)) = []"
    by (rule projected_responses_carry_no_secret)
  from answered stored listing show ?thesis
    by (simp add: body_secrets_def reply_def ex_bob_def)
qed

end
